theory Spec2Isabelle
  imports Main
begin

section \<open>JavaScript values\<close>

text \<open>
  The handlers read their input with \<^verbatim>\<open>await req.json()\<close> and pass fields through to
  \<^verbatim>\<open>JSON.stringify\<close>. A parsed value is a \<open>json\<close>; a destructured property that
  the body does not have is \<^verbatim>\<open>undefined\<close>, the \<open>None\<close> of \<open>json option\<close>.
  An object is the list of its properties in insertion order, keys distinct.
  A string is the list of its code units, the unit that \<^verbatim>\<open>substring\<close> counts.
  Numbers are the integers; no handler computes with a number.
\<close>

datatype json =
    JNull
  | JBool bool
  | JNum int
  | JStr string
  | JArr "json list"
  | JObj "(string \<times> json) list"

type_synonym jsval = "json option"

text \<open>ToBoolean, as \<^verbatim>\<open>!x\<close>, \<^verbatim>\<open>x || y\<close> and \<^verbatim>\<open>if (x)\<close> apply it.\<close>

fun truthy :: "jsval \<Rightarrow> bool" where
  "truthy None = False"
| "truthy (Some JNull) = False"
| "truthy (Some (JBool b)) = b"
| "truthy (Some (JNum n)) = (n \<noteq> 0)"
| "truthy (Some (JStr s)) = (s \<noteq> [])"
| "truthy (Some (JArr xs)) = True"
| "truthy (Some (JObj kvs)) = True"

text \<open>ToBoolean of a value that is a string or \<^verbatim>\<open>undefined\<close>/\<^verbatim>\<open>null\<close>
  (a header, an environment variable).\<close>

fun truthy_str :: "string option \<Rightarrow> bool" where
  "truthy_str None = False"
| "truthy_str (Some s) = (s \<noteq> [])"

text \<open>Property access \<^verbatim>\<open>v.k\<close> on a value that is not \<^verbatim>\<open>null\<close>: only an object
  has the properties the handlers ask for.\<close>

fun field :: "json \<Rightarrow> string \<Rightarrow> jsval" where
  "field (JObj kvs) k = map_of kvs k"
| "field v k = None"

text \<open>Decimal digits of a number, as a template literal prints it.\<close>

definition digit :: "nat \<Rightarrow> char" where
  "digit d = char_of (48 + d)"

function show_nat :: "nat \<Rightarrow> string" where
  "show_nat n = (if n < 10 then [digit n] else show_nat (n div 10) @ [digit (n mod 10)])"
  by pat_completeness auto
termination
  by (relation "measure (\<lambda>n. n)") auto

declare show_nat.simps [simp del]

definition show_int :: "int \<Rightarrow> string" where
  "show_int i = (if i < 0 then CHR ''-'' # show_nat (nat (- i)) else show_nat (nat i))"

fun join_comma :: "string list \<Rightarrow> string" where
  "join_comma [] = []"
| "join_comma [s] = s"
| "join_comma (s # t # ss) = s @ '','' @ join_comma (t # ss)"

text \<open>ToString of a parsed value, as a template literal \<^verbatim>\<open>`${v}`\<close> applies it:
  an array joins its elements with commas, \<^verbatim>\<open>null\<close> elements printing as nothing.\<close>

fun js_string :: "json \<Rightarrow> string" where
  "js_string JNull = ''null''"
| "js_string (JBool b) = (if b then ''true'' else ''false'')"
| "js_string (JNum n) = show_int n"
| "js_string (JStr s) = s"
| "js_string (JArr xs) = join_comma (map (\<lambda>x. case x of JNull \<Rightarrow> [] | _ \<Rightarrow> js_string x) xs)"
| "js_string (JObj kvs) = ''[object Object]''"

fun template :: "jsval \<Rightarrow> string" where
  "template None = ''undefined''"
| "template (Some v) = js_string v"

fun template_str :: "string option \<Rightarrow> string" where
  "template_str None = ''undefined''"
| "template_str (Some s) = s"

text \<open>An object literal handed to \<^verbatim>\<open>JSON.stringify\<close>: a property whose value is
  \<^verbatim>\<open>undefined\<close> is left out of the output.\<close>

fun js_object :: "(string \<times> jsval) list \<Rightarrow> (string \<times> json) list" where
  "js_object [] = []"
| "js_object ((k, None) # kvs) = js_object kvs"
| "js_object ((k, Some v) # kvs) = (k, v) # js_object kvs"

text \<open>\<^verbatim>\<open>x || d\<close>.\<close>

definition or_else :: "jsval \<Rightarrow> json \<Rightarrow> json" where
  "or_else x d = (case x of None \<Rightarrow> d | Some v \<Rightarrow> if truthy x then v else d)"

text \<open>\<^verbatim>\<open>sourceIds?.[0]\<close>: \<^verbatim>\<open>undefined\<close> on \<^verbatim>\<open>undefined\<close> and \<^verbatim>\<open>null\<close>, else
  the property \<^verbatim>\<open>0\<close> of the value.\<close>

fun optional_first :: "jsval \<Rightarrow> jsval" where
  "optional_first None = None"
| "optional_first (Some JNull) = None"
| "optional_first (Some (JArr [])) = None"
| "optional_first (Some (JArr (x # xs))) = Some x"
| "optional_first (Some (JStr [])) = None"
| "optional_first (Some (JStr (c # cs))) = Some (JStr [c])"
| "optional_first (Some (JObj kvs)) = map_of kvs ''0''"
| "optional_first (Some v) = None"

section \<open>The world of one call\<close>

text \<open>
  The store holds the two tables the handlers touch. \<^verbatim>\<open>.single()\<close> answers with
  the row when exactly one row matches, and with an error and no data otherwise.
\<close>

record notebook =
  nb_id :: string
  nb_user_id :: string
  nb_title :: json
  nb_description :: json
  nb_icon :: json
  nb_color :: json
  nb_example_questions :: json
  nb_generation_status :: string

record source =
  src_id :: string
  src_notebook_id :: string
  src_content :: "string option"
  src_processing_status :: string

record db =
  notebooks :: "notebook list"
  sources :: "source list"

definition single :: "'a list \<Rightarrow> 'a option" where
  "single rows = (case rows of [r] \<Rightarrow> Some r | _ \<Rightarrow> None)"

text \<open>\<^verbatim>\<open>from('sources').select('id, notebook_id, notebooks!inner(user_id)').eq('id', k).single()\<close>\<close>

definition select_source_owner :: "db \<Rightarrow> string \<Rightarrow> (source \<times> notebook) option" where
  "select_source_owner d k =
     single [(s, n). s \<leftarrow> sources d, src_id s = k, n \<leftarrow> notebooks d, nb_id n = src_notebook_id s]"

text \<open>\<^verbatim>\<open>from('notebooks').select('id, user_id').eq('id', k).single()\<close>\<close>

definition select_notebook :: "db \<Rightarrow> string \<Rightarrow> notebook option" where
  "select_notebook d k = single (filter (\<lambda>n. nb_id n = k) (notebooks d))"

text \<open>\<^verbatim>\<open>from('sources').select('content').eq('notebook_id', k).single()\<close>\<close>

definition select_source_content :: "db \<Rightarrow> string \<Rightarrow> source option" where
  "select_source_content d k = single (filter (\<lambda>s. src_notebook_id s = k) (sources d))"

text \<open>What a call does to the outside, in the order it does it: the identity call with
  the caller's header, a lookup (table, column, key), an update (table, id, columns) and
  the fetch (URL, headers, body). Console output is left out.\<close>

datatype effect =
    GetUser string
  | Select string string string
  | Update string string "(string \<times> json) list"
  | Fetch string "(string \<times> string) list" json

text \<open>The processor's answer: its status, its body as \<^verbatim>\<open>response.text()\<close> gives it, and
  as \<^verbatim>\<open>response.json()\<close> gives it, \<open>Inl\<close> the message when the body is not JSON and the
  promise rejects. \<^verbatim>\<open>fetch\<close> itself rejects when the processor cannot be reached.\<close>

record upstream =
  up_status :: nat
  up_text :: string
  up_json :: "string + json"

datatype fetch_outcome = Rejects string | Responds upstream

text \<open>\<^verbatim>\<open>response.ok\<close>\<close>

definition ok :: "upstream \<Rightarrow> bool" where
  "ok r = (200 \<le> up_status r \<and> up_status r \<le> 299)"

text \<open>
  Everything a call reads from outside the handler: the environment, whether
  \<^verbatim>\<open>createClient(url, key)\<close> throws (\<open>Some\<close> the message), what
  \<^verbatim>\<open>auth.getUser()\<close> answers (the user's id or \<^verbatim>\<open>null\<close>, and whether an error came
  with it), the store and which updates it refuses, the processor's answer to the one
  \<^verbatim>\<open>fetch\<close> of the call, the clock, and the message of the engine's TypeError.
\<close>

record world =
  env :: "string \<Rightarrow> string option"
  createClient :: "string \<Rightarrow> string \<Rightarrow> string option"
  getUser :: "string option \<times> bool"
  store :: db
  update_refused :: "string \<Rightarrow> string \<Rightarrow> (string \<times> json) list \<Rightarrow> bool"
  processor :: fetch_outcome
  now_iso :: string
  type_error :: string

text \<open>The request: its method, its Authorization header (\<open>None\<close> when absent), and what
  \<^verbatim>\<open>await req.json()\<close> gives, \<open>Inl\<close> the message when the body is not JSON.\<close>

record request =
  req_method :: string
  authorization :: "string option"
  req_json :: "string + json"

text \<open>A response body is absent, a text, or the serialisation of a JSON value.\<close>

datatype body = NoBody | Text string | Json json

record response =
  status :: nat
  resp_headers :: "(string \<times> string) list"
  resp_body :: body

text \<open>A stage of a handler returns a response, throws an error with a message, or goes
  on with a value. The outcome of a call is its response, what it did, and the store it
  leaves.\<close>

datatype 'a step = Reply response | Throw string | Proceed 'a

record outcome =
  answer :: response
  effects :: "effect list"
  final :: db

definition corsHeaders :: "(string \<times> string) list" where
  "corsHeaders =
     [(''Access-Control-Allow-Origin'', ''*''),
      (''Access-Control-Allow-Headers'', ''authorization, x-client-info, apikey, content-type'')]"

text \<open>\<^verbatim>\<open>new Response(JSON.stringify(j), { status, headers: { ...corsHeaders, 'Content-Type': 'application/json' } })\<close>\<close>

definition json_response :: "nat \<Rightarrow> (string \<times> jsval) list \<Rightarrow> response" where
  "json_response c kvs =
     \<lparr>status = c, resp_headers = corsHeaders @ [(''Content-Type'', ''application/json'')],
      resp_body = Json (JObj (js_object kvs))\<rparr>"

text \<open>The same with the content type first, as process-additional-sources spreads them.\<close>

definition json_response' :: "nat \<Rightarrow> (string \<times> jsval) list \<Rightarrow> response" where
  "json_response' c kvs =
     \<lparr>status = c, resp_headers = (''Content-Type'', ''application/json'') # corsHeaders,
      resp_body = Json (JObj (js_object kvs))\<rparr>"

text \<open>\<^verbatim>\<open>Deno.env.get(k) ?? ''\<close>\<close>

definition env_or_empty :: "world \<Rightarrow> string \<Rightarrow> string" where
  "env_or_empty w k = (case env w k of None \<Rightarrow> [] | Some v \<Rightarrow> v)"

text \<open>\<^verbatim>\<open>.update(fields).eq('id', k)\<close> on either table: the rows with that id take the
  new column, unless the store refuses the update; the handlers look at the result of
  the last update of generate-notebook-content only.\<close>

definition set_processing_status :: "world \<Rightarrow> db \<Rightarrow> string \<Rightarrow> string \<Rightarrow> db" where
  "set_processing_status w d k v =
     (if update_refused w ''sources'' k [(''processing_status'', JStr v)] then d
      else d\<lparr>sources :=
             map (\<lambda>s. if src_id s = k then s\<lparr>src_processing_status := v\<rparr> else s) (sources d)\<rparr>)"

definition set_generation_status :: "world \<Rightarrow> db \<Rightarrow> string \<Rightarrow> string \<Rightarrow> db" where
  "set_generation_status w d k v =
     (if update_refused w ''notebooks'' k [(''generation_status'', JStr v)] then d
      else d\<lparr>notebooks :=
             map (\<lambda>n. if nb_id n = k then n\<lparr>nb_generation_status := v\<rparr> else n) (notebooks d)\<rparr>)"

definition update_processing_status ::
  "world \<Rightarrow> string \<Rightarrow> string \<Rightarrow> effect list \<times> db \<Rightarrow> effect list \<times> db" where
  "update_processing_status w k v td =
     (fst td @ [Update ''sources'' k [(''processing_status'', JStr v)]],
      set_processing_status w (snd td) k v)"

definition update_generation_status ::
  "world \<Rightarrow> string \<Rightarrow> string \<Rightarrow> effect list \<times> db \<Rightarrow> effect list \<times> db" where
  "update_generation_status w k v td =
     (fst td @ [Update ''notebooks'' k [(''generation_status'', JStr v)]],
      set_generation_status w (snd td) k v)"

section \<open>The authorization check\<close>

text \<open>
  The block between the AUTHORIZATION CHECK comments, the same in the four handlers:
  the header, the client made with the caller's token, \<^verbatim>\<open>auth.getUser()\<close>.
  It ends the call with a response, throws into the handler's \<^verbatim>\<open>catch\<close>, or goes on
  with the verified \<^verbatim>\<open>user.id\<close>.
\<close>

definition authorization_check :: "world \<Rightarrow> request \<Rightarrow> string step \<times> effect list" where
  "authorization_check w req =
     (case authorization req of
        None \<Rightarrow>
          (Reply (json_response 401 [(''error'', Some (JStr ''Missing authorization header''))]), [])
      | Some authHeader \<Rightarrow>
          if authHeader = [] then
            (Reply (json_response 401 [(''error'', Some (JStr ''Missing authorization header''))]), [])
          else
            (case createClient w (env_or_empty w ''SUPABASE_URL'')
                    (env_or_empty w ''SUPABASE_ANON_KEY'') of
               Some m \<Rightarrow> (Throw m, [])
             | None \<Rightarrow>
                 (case fst (getUser w) of
                    None \<Rightarrow>
                      (Reply (json_response 401
                         [(''error'', Some (JStr ''Unauthorized - invalid or expired token''))]),
                       [GetUser authHeader])
                  | Some uid \<Rightarrow>
                      if snd (getUser w) then
                        (Reply (json_response 401
                           [(''error'', Some (JStr ''Unauthorized - invalid or expired token''))]),
                         [GetUser authHeader])
                      else (Proceed uid, [GetUser authHeader]))))"

section \<open>process-document\<close>

text \<open>The payload of process-document/index.ts, lines 111 to 121.\<close>

definition document_payload :: "world \<Rightarrow> jsval \<Rightarrow> jsval \<Rightarrow> jsval \<Rightarrow> json" where
  "document_payload w sourceId filePath sourceType =
     JObj (js_object
       [(''source_id'', sourceId),
        (''file_url'', Some (JStr (template_str (env w ''SUPABASE_URL'')
            @ ''/storage/v1/object/public/sources/'' @ template filePath))),
        (''file_path'', filePath),
        (''source_type'', sourceType),
        (''callback_url'', Some (JStr (template_str (env w ''SUPABASE_URL'')
            @ ''/functions/v1/process-document-callback'')))])"

text \<open>From \<^verbatim>\<open>// Get environment variables\<close> to the success response.\<close>

definition process_document_dispatch ::
  "world \<Rightarrow> jsval \<Rightarrow> jsval \<Rightarrow> jsval \<Rightarrow> effect list \<Rightarrow> (string + response) \<times> effect list \<times> db" where
  "process_document_dispatch w sourceId filePath sourceType tr =
     (let webhookUrl = env w ''DOCUMENT_PROCESSING_WEBHOOK_URL'';
          webhookAuthHeader = env w ''NOTEBOOK_GENERATION_AUTH''
      in if \<not> truthy_str webhookUrl then
           (Inr (json_response 500
              [(''error'', Some (JStr ''Document processing webhook URL not configured''))]),
            update_processing_status w (template sourceId) ''failed'' (tr, store w))
         else
           let payload = document_payload w sourceId filePath sourceType;
               webhookHeaders = (''Content-Type'', ''application/json'') #
                 (if truthy_str webhookAuthHeader
                  then [(''Authorization'', template_str webhookAuthHeader)] else []);
               tr1 = tr @ [Fetch (template_str webhookUrl) webhookHeaders payload]
           in (case processor w of
                 Rejects m \<Rightarrow> (Inl m, tr1, store w)
               | Responds r \<Rightarrow>
                   if \<not> ok r then
                     (Inr (json_response 500
                        [(''error'', Some (JStr ''Document processing failed'')),
                         (''details'', Some (JStr (up_text r)))]),
                      update_processing_status w (template sourceId) ''failed'' (tr1, store w))
                   else
                     (case up_json r of
                        Inl m \<Rightarrow> (Inl m, tr1, store w)
                      | Inr result \<Rightarrow>
                          (Inr (json_response 200
                             [(''success'', Some (JBool True)),
                              (''message'', Some (JStr ''Document processing initiated'')),
                              (''result'', Some result)]),
                           tr1, store w))))"

text \<open>The body of the \<^verbatim>\<open>try\<close>: \<open>Inl\<close> is what it throws, \<open>Inr\<close> the response it returns.\<close>

definition process_document_try ::
  "world \<Rightarrow> request \<Rightarrow> (string + response) \<times> effect list \<times> db" where
  "process_document_try w req =
     (case authorization_check w req of
        (Reply r, tr) \<Rightarrow> (Inr r, tr, store w)
      | (Throw m, tr) \<Rightarrow> (Inl m, tr, store w)
      | (Proceed uid, tr) \<Rightarrow>
          (case req_json req of
             Inl m \<Rightarrow> (Inl m, tr, store w)
           | Inr b \<Rightarrow>
               if b = JNull then (Inl (type_error w), tr, store w)
               else
                 let sourceId = field b ''sourceId'';
                     filePath = field b ''filePath'';
                     sourceType = field b ''sourceType''
                 in if \<not> truthy sourceId \<or> \<not> truthy filePath \<or> \<not> truthy sourceType then
                      (Inr (json_response 400
                         [(''error'', Some (JStr ''sourceId, filePath, and sourceType are required''))]),
                       tr, store w)
                    else
                      (case createClient w (env_or_empty w ''SUPABASE_URL'')
                              (env_or_empty w ''SUPABASE_SERVICE_ROLE_KEY'') of
                         Some m \<Rightarrow> (Inl m, tr, store w)
                       | None \<Rightarrow>
                           let tr1 = tr @ [Select ''sources'' ''id'' (template sourceId)]
                           in (case select_source_owner (store w) (template sourceId) of
                                 None \<Rightarrow>
                                   (Inr (json_response 404
                                      [(''error'', Some (JStr ''Source not found''))]),
                                    tr1, store w)
                               | Some sn \<Rightarrow>
                                   if nb_user_id (snd sn) \<noteq> uid then
                                     (Inr (json_response 403
                                        [(''error'',
                                          Some (JStr ''Forbidden - you do not own this resource''))]),
                                      tr1, store w)
                                   else
                                     process_document_dispatch w sourceId filePath sourceType
                                       tr1))))"

definition process_document :: "world \<Rightarrow> request \<Rightarrow> outcome" where
  "process_document w req =
     (if req_method req = ''OPTIONS'' then
        \<lparr>answer = \<lparr>status = 200, resp_headers = corsHeaders, resp_body = Text ''ok''\<rparr>,
         effects = [], final = store w\<rparr>
      else
        (case process_document_try w req of
           (Inr r, tr, d) \<Rightarrow> \<lparr>answer = r, effects = tr, final = d\<rparr>
         | (Inl m, tr, d) \<Rightarrow>
             \<lparr>answer = json_response 500 [(''error'', Some (JStr ''Internal server error''))],
              effects = tr, final = d\<rparr>))"

section \<open>process-additional-sources\<close>

text \<open>The two payloads of process-additional-sources/index.ts, lines 92 to 108.\<close>

definition websites_payload :: "jsval \<Rightarrow> jsval \<Rightarrow> jsval \<Rightarrow> jsval \<Rightarrow> json" where
  "websites_payload notebookId urls sourceIds timestamp =
     JObj (js_object
       [(''type'', Some (JStr ''multiple-websites'')),
        (''notebookId'', notebookId),
        (''urls'', urls),
        (''sourceIds'', sourceIds),
        (''timestamp'', timestamp)])"

definition copied_text_payload :: "jsval \<Rightarrow> jsval \<Rightarrow> jsval \<Rightarrow> jsval \<Rightarrow> jsval \<Rightarrow> json" where
  "copied_text_payload notebookId title content sourceIds timestamp =
     JObj (js_object
       [(''type'', Some (JStr ''copied-text'')),
        (''notebookId'', notebookId),
        (''title'', title),
        (''content'', content),
        (''sourceId'', optional_first sourceIds),
        (''timestamp'', timestamp)])"

text \<open>The branch on \<^verbatim>\<open>type\<close>, lines 90 to 111: \<open>None\<close> where the source throws
  \<^verbatim>\<open>Unsupported type\<close>.\<close>

definition additional_sources_payload :: "json \<Rightarrow> json option" where
  "additional_sources_payload b =
     (let type = field b ''type''; notebookId = field b ''notebookId''; urls = field b ''urls'';
          title = field b ''title''; content = field b ''content'';
          timestamp = field b ''timestamp''; sourceIds = field b ''sourceIds''
      in if type = Some (JStr ''multiple-websites'') then
           Some (websites_payload notebookId urls sourceIds timestamp)
         else if type = Some (JStr ''copied-text'') then
           Some (copied_text_payload notebookId title content sourceIds timestamp)
         else None)"

text \<open>From \<^verbatim>\<open>// Get the webhook URL from Supabase secrets\<close> to the success response.\<close>

definition additional_sources_dispatch ::
  "world \<Rightarrow> json \<Rightarrow> effect list \<Rightarrow> (string + response) \<times> effect list \<times> db" where
  "additional_sources_dispatch w b tr =
     (let type = field b ''type'';
          webhookUrl = env w ''ADDITIONAL_SOURCES_WEBHOOK_URL'';
          authToken = env w ''NOTEBOOK_GENERATION_AUTH''
      in if \<not> truthy_str webhookUrl then
           (Inl ''ADDITIONAL_SOURCES_WEBHOOK_URL not configured'', tr, store w)
         else if \<not> truthy_str authToken then
           (Inl ''NOTEBOOK_GENERATION_AUTH not configured'', tr, store w)
         else
           (case additional_sources_payload b of
              None \<Rightarrow> (Inl (''Unsupported type: '' @ template type), tr, store w)
            | Some webhookPayload \<Rightarrow>
                let tr1 = tr @ [Fetch (template_str webhookUrl)
                            ([(''Content-Type'', ''application/json''),
                              (''Authorization'', template_str authToken)] @ corsHeaders)
                            webhookPayload]
                in (case processor w of
                      Rejects m \<Rightarrow> (Inl m, tr1, store w)
                    | Responds r \<Rightarrow>
                        if \<not> ok r then
                          (Inl (''Webhook request failed: '' @ show_nat (up_status r) @ '' - ''
                                @ up_text r),
                           tr1, store w)
                        else
                          (Inr (json_response' 200
                             [(''success'', Some (JBool True)),
                              (''message'',
                               Some (JStr (template type
                                 @ '' data sent to webhook successfully''))),
                              (''webhookResponse'', Some (JStr (up_text r)))]),
                           tr1, store w))))"

definition process_additional_sources_try ::
  "world \<Rightarrow> request \<Rightarrow> (string + response) \<times> effect list \<times> db" where
  "process_additional_sources_try w req =
     (case authorization_check w req of
        (Reply r, tr) \<Rightarrow> (Inr r, tr, store w)
      | (Throw m, tr) \<Rightarrow> (Inl m, tr, store w)
      | (Proceed uid, tr) \<Rightarrow>
          (case req_json req of
             Inl m \<Rightarrow> (Inl m, tr, store w)
           | Inr b \<Rightarrow>
               if b = JNull then (Inl (type_error w), tr, store w)
               else
                 (case createClient w (env_or_empty w ''SUPABASE_URL'')
                         (env_or_empty w ''SUPABASE_SERVICE_ROLE_KEY'') of
                    Some m \<Rightarrow> (Inl m, tr, store w)
                  | None \<Rightarrow>
                      let notebookId = field b ''notebookId'';
                          tr1 = tr @ [Select ''notebooks'' ''id'' (template notebookId)]
                      in (case select_notebook (store w) (template notebookId) of
                            None \<Rightarrow>
                              (Inr (json_response 404
                                 [(''error'', Some (JStr ''Notebook not found''))]),
                               tr1, store w)
                          | Some notebook \<Rightarrow>
                              if nb_user_id notebook \<noteq> uid then
                                (Inr (json_response 403
                                   [(''error'',
                                     Some (JStr ''Forbidden - you do not own this notebook''))]),
                                 tr1, store w)
                              else additional_sources_dispatch w b tr1))))"

definition process_additional_sources :: "world \<Rightarrow> request \<Rightarrow> outcome" where
  "process_additional_sources w req =
     (if req_method req = ''OPTIONS'' then
        \<lparr>answer = \<lparr>status = 200, resp_headers = corsHeaders, resp_body = NoBody\<rparr>,
         effects = [], final = store w\<rparr>
      else
        (case process_additional_sources_try w req of
           (Inr r, tr, d) \<Rightarrow> \<lparr>answer = r, effects = tr, final = d\<rparr>
         | (Inl m, tr, d) \<Rightarrow>
             \<lparr>answer = json_response' 500
                [(''error'', Some (JStr m)), (''success'', Some (JBool False))],
              effects = tr, final = d\<rparr>))"

section \<open>send-chat-message\<close>

text \<open>The payload of send-chat-message/index.ts, lines 73 to 78; the timestamp is
  \<^verbatim>\<open>new Date().toISOString()\<close>, the clock of the world.\<close>

definition chat_payload :: "jsval \<Rightarrow> jsval \<Rightarrow> string \<Rightarrow> string \<Rightarrow> json" where
  "chat_payload session_id message user_id timestamp =
     JObj (js_object
       [(''session_id'', session_id),
        (''message'', message),
        (''user_id'', Some (JStr user_id)),
        (''timestamp'', Some (JStr timestamp))])"

definition send_chat_message_try ::
  "world \<Rightarrow> request \<Rightarrow> (string + response) \<times> effect list \<times> db" where
  "send_chat_message_try w req =
     (case authorization_check w req of
        (Reply r, tr) \<Rightarrow> (Inr r, tr, store w)
      | (Throw m, tr) \<Rightarrow> (Inl m, tr, store w)
      | (Proceed uid, tr) \<Rightarrow>
          (case req_json req of
             Inl m \<Rightarrow> (Inl m, tr, store w)
           | Inr b \<Rightarrow>
               if b = JNull then (Inl (type_error w), tr, store w)
               else
                 let session_id = field b ''session_id''; message = field b ''message'';
                     user_id = uid;
                     webhookUrl = env w ''NOTEBOOK_CHAT_URL'';
                     webhookAuthHeader = env w ''NOTEBOOK_GENERATION_AUTH''
                 in if \<not> truthy_str webhookUrl then
                      (Inl ''NOTEBOOK_CHAT_URL environment variable not set'', tr, store w)
                    else if \<not> truthy_str webhookAuthHeader then
                      (Inl ''NOTEBOOK_GENERATION_AUTH environment variable not set'', tr, store w)
                    else
                      let tr1 = tr @ [Fetch (template_str webhookUrl)
                                  [(''Content-Type'', ''application/json''),
                                   (''Authorization'', template_str webhookAuthHeader)]
                                  (chat_payload session_id message user_id (now_iso w))]
                      in (case processor w of
                            Rejects m \<Rightarrow> (Inl m, tr1, store w)
                          | Responds r \<Rightarrow>
                              if \<not> ok r then
                                (Inl (''Webhook responded with status: '' @ show_nat (up_status r)),
                                 tr1, store w)
                              else
                                (case up_json r of
                                   Inl m \<Rightarrow> (Inl m, tr1, store w)
                                 | Inr webhookData \<Rightarrow>
                                     (Inr (json_response 200
                                        [(''success'', Some (JBool True)),
                                         (''data'', Some webhookData)]),
                                      tr1, store w)))))"

definition send_chat_message :: "world \<Rightarrow> request \<Rightarrow> outcome" where
  "send_chat_message w req =
     (if req_method req = ''OPTIONS'' then
        \<lparr>answer = \<lparr>status = 200, resp_headers = corsHeaders, resp_body = NoBody\<rparr>,
         effects = [], final = store w\<rparr>
      else
        (case send_chat_message_try w req of
           (Inr r, tr, d) \<Rightarrow> \<lparr>answer = r, effects = tr, final = d\<rparr>
         | (Inl m, tr, d) \<Rightarrow>
             \<lparr>answer = json_response 500
                [(''error'',
                  Some (JStr (if m \<noteq> [] then m else ''Failed to send message to webhook'')))],
              effects = tr, final = d\<rparr>))"

section \<open>generate-notebook-content\<close>

text \<open>\<^verbatim>\<open>source.content.substring(0, 5000)\<close>\<close>

definition truncate_content :: "string \<Rightarrow> string" where
  "truncate_content c = take 5000 c"

text \<open>The payload of lines 227 to 245; \<open>found\<close> is the row the lookup of the text
  source gave, read only when there is no \<^verbatim>\<open>filePath\<close>.\<close>

definition generation_payload :: "jsval \<Rightarrow> jsval \<Rightarrow> source option \<Rightarrow> json" where
  "generation_payload sourceType filePath found =
     JObj (js_object
       ((''sourceType'', sourceType) #
        (if truthy filePath then [(''filePath'', filePath)]
         else (case found of
                 None \<Rightarrow> []
               | Some source \<Rightarrow>
                   if truthy_str (src_content source)
                   then [(''content'',
                          Some (JStr (truncate_content (template_str (src_content source)))))]
                   else []))))"

text \<open>The icon literal of line 323, as the bytes the source file holds.\<close>

definition default_icon :: string where
  "default_icon = map char_of [239, 163, 191, 195, 188, 195, 172, 195, 185 :: nat]"

text \<open>The last update, lines 318 to 328: the only one whose error the handler reads.\<close>

definition set_generated_content ::
  "db \<Rightarrow> string \<Rightarrow> json \<Rightarrow> json \<Rightarrow> json \<Rightarrow> json \<Rightarrow> json \<Rightarrow> db" where
  "set_generated_content d k title description icon color example_questions =
     d\<lparr>notebooks :=
         map (\<lambda>n. if nb_id n = k then
                     n\<lparr>nb_title := title, nb_description := description, nb_icon := icon,
                       nb_color := color, nb_example_questions := example_questions,
                       nb_generation_status := ''completed''\<rparr>
                   else n) (notebooks d)\<rparr>"

text \<open>From \<^verbatim>\<open>// Parse the response format\<close> to the success response: what the handler
  does with the parsed body of a 2xx answer.\<close>

definition generate_store_result ::
  "world \<Rightarrow> string \<Rightarrow> json \<Rightarrow> effect list \<times> db \<Rightarrow> (string + response) \<times> effect list \<times> db" where
  "generate_store_result w k generatedData td =
     (if truthy (Some generatedData) \<and> truthy (field generatedData ''output'') then
        let output = or_else (field generatedData ''output'') JNull;
            title = field output ''title'';
            description = field output ''summary'';
            notebookIcon = field output ''notebook_icon'';
            backgroundColor = field output ''background_color'';
            exampleQuestions = or_else (field output ''example_questions'') (JArr [])
        in if \<not> truthy title then
             (Inr (json_response 500
                [(''error'', Some (JStr ''No title in response from web service''))]),
              update_generation_status w k ''failed'' td)
           else
             let fields =
                   [(''title'', or_else title JNull),
                    (''description'', or_else description JNull),
                    (''icon'', or_else notebookIcon (JStr default_icon)),
                    (''color'', or_else backgroundColor (JStr ''bg-gray-100'')),
                    (''example_questions'', or_else (Some exampleQuestions) (JArr [])),
                    (''generation_status'', JStr ''completed'')];
                 tr1 = fst td @ [Update ''notebooks'' k fields]
             in if update_refused w ''notebooks'' k fields then
                  (Inr (json_response 500 [(''error'', Some (JStr ''Failed to update notebook''))]),
                   tr1, snd td)
                else
                  (Inr (json_response 200
                     [(''success'', Some (JBool True)),
                      (''title'', title),
                      (''description'', description),
                      (''icon'', notebookIcon),
                      (''color'', backgroundColor),
                      (''exampleQuestions'', Some exampleQuestions),
                      (''message'', Some (JStr ''Notebook content generated successfully''))]),
                   tr1,
                   set_generated_content (snd td) k (or_else title JNull)
                     (or_else description JNull) (or_else notebookIcon (JStr default_icon))
                     (or_else backgroundColor (JStr ''bg-gray-100''))
                     (or_else (Some exampleQuestions) (JArr [])))
      else
        (Inr (json_response 500
           [(''error'', Some (JStr ''Invalid response format from web service''))]),
         update_generation_status w k ''failed'' td))"

text \<open>From \<^verbatim>\<open>// Get environment variables\<close> to the call of the web service and the
  check of its status.\<close>

definition generate_dispatch ::
  "world \<Rightarrow> jsval \<Rightarrow> jsval \<Rightarrow> jsval \<Rightarrow> effect list \<Rightarrow> (string + response) \<times> effect list \<times> db" where
  "generate_dispatch w notebookId filePath sourceType tr =
     (let webServiceUrl = env w ''NOTEBOOK_GENERATION_URL'';
          webhookAuthHeader = env w ''NOTEBOOK_GENERATION_AUTH''
      in if \<not> truthy_str webServiceUrl \<or> \<not> truthy_str webhookAuthHeader then
           (Inr (json_response 500
              [(''error'', Some (JStr ''Web service configuration missing''))]),
            tr, store w)
         else
           let k = template notebookId;
               td1 = update_generation_status w k ''generating'' (tr, store w);
               found = (if truthy filePath then None else select_source_content (snd td1) k);
               tr2 = (if truthy filePath then fst td1
                      else fst td1 @ [Select ''sources'' ''notebook_id'' k]);
               payload = generation_payload sourceType filePath found;
               tr3 = tr2 @ [Fetch (template_str webServiceUrl)
                       [(''Content-Type'', ''application/json''),
                        (''Authorization'', template_str webhookAuthHeader)]
                       payload]
           in (case processor w of
                 Rejects m \<Rightarrow> (Inl m, tr3, snd td1)
               | Responds r \<Rightarrow>
                   if \<not> ok r then
                     (Inr (json_response 500
                        [(''error'', Some (JStr ''Failed to generate content from web service''))]),
                      update_generation_status w k ''failed'' (tr3, snd td1))
                   else
                     (case up_json r of
                        Inl m \<Rightarrow> (Inl m, tr3, snd td1)
                      | Inr generatedData \<Rightarrow>
                          generate_store_result w k generatedData (tr3, snd td1))))"

definition generate_notebook_content_try ::
  "world \<Rightarrow> request \<Rightarrow> (string + response) \<times> effect list \<times> db" where
  "generate_notebook_content_try w req =
     (case authorization_check w req of
        (Reply r, tr) \<Rightarrow> (Inr r, tr, store w)
      | (Throw m, tr) \<Rightarrow> (Inl m, tr, store w)
      | (Proceed uid, tr) \<Rightarrow>
          (case req_json req of
             Inl m \<Rightarrow> (Inl m, tr, store w)
           | Inr b \<Rightarrow>
               if b = JNull then (Inl (type_error w), tr, store w)
               else
                 let notebookId = field b ''notebookId'';
                     filePath = field b ''filePath'';
                     sourceType = field b ''sourceType''
                 in if \<not> truthy notebookId \<or> \<not> truthy sourceType then
                      (Inr (json_response 400
                         [(''error'', Some (JStr ''notebookId and sourceType are required''))]),
                       tr, store w)
                    else
                      (case createClient w (env_or_empty w ''SUPABASE_URL'')
                              (env_or_empty w ''SUPABASE_SERVICE_ROLE_KEY'') of
                         Some m \<Rightarrow> (Inl m, tr, store w)
                       | None \<Rightarrow>
                           let tr1 = tr @ [Select ''notebooks'' ''id'' (template notebookId)]
                           in (case select_notebook (store w) (template notebookId) of
                                 None \<Rightarrow>
                                   (Inr (json_response 404
                                      [(''error'', Some (JStr ''Notebook not found''))]),
                                    tr1, store w)
                               | Some notebook \<Rightarrow>
                                   if nb_user_id notebook \<noteq> uid then
                                     (Inr (json_response 403
                                        [(''error'',
                                          Some (JStr ''Forbidden - you do not own this notebook''))]),
                                      tr1, store w)
                                   else
                                     generate_dispatch w notebookId filePath sourceType tr1))))"

definition generate_notebook_content :: "world \<Rightarrow> request \<Rightarrow> outcome" where
  "generate_notebook_content w req =
     (if req_method req = ''OPTIONS'' then
        \<lparr>answer = \<lparr>status = 200, resp_headers = corsHeaders, resp_body = Text ''ok''\<rparr>,
         effects = [], final = store w\<rparr>
      else
        (case generate_notebook_content_try w req of
           (Inr r, tr, d) \<Rightarrow> \<lparr>answer = r, effects = tr, final = d\<rparr>
         | (Inl m, tr, d) \<Rightarrow>
             \<lparr>answer = json_response 500 [(''error'', Some (JStr ''Internal server error''))],
              effects = tr, final = d\<rparr>))"

section \<open>What a call did\<close>

fun is_fetch :: "effect \<Rightarrow> bool" where
  "is_fetch (Fetch url hs b) = True"
| "is_fetch e = False"

fun is_update :: "effect \<Rightarrow> bool" where
  "is_update (Update t k fs) = True"
| "is_update e = False"

text \<open>The bodies the call sent to the processor.\<close>

fun dispatched :: "effect list \<Rightarrow> json list" where
  "dispatched [] = []"
| "dispatched (Fetch url hs b # es) = b # dispatched es"
| "dispatched (e # es) = dispatched es"

section \<open>A deployment to run the handlers on\<close>

text \<open>
  One notebook \<open>n1\<close> of the user \<open>alice\<close> with one text source \<open>s1\<close>, every variable
  of the environment set, a store that takes every update, and a processor that answers
  200 with an empty object. \<^verbatim>\<open>createClient\<close> throws on an empty URL or key.
\<close>

definition example_env :: "(string \<times> string) list" where
  "example_env =
     [(''SUPABASE_URL'', ''https://db.example''),
      (''SUPABASE_ANON_KEY'', ''anon''),
      (''SUPABASE_SERVICE_ROLE_KEY'', ''service''),
      (''DOCUMENT_PROCESSING_WEBHOOK_URL'', ''https://flow.example/doc''),
      (''ADDITIONAL_SOURCES_WEBHOOK_URL'', ''https://flow.example/add''),
      (''NOTEBOOK_GENERATION_URL'', ''https://flow.example/gen''),
      (''NOTEBOOK_CHAT_URL'', ''https://flow.example/chat''),
      (''NOTEBOOK_GENERATION_AUTH'', ''secret'')]"

definition example_store :: db where
  "example_store =
     \<lparr>notebooks =
        [\<lparr>nb_id = ''n1'', nb_user_id = ''alice'', nb_title = JStr ''Untitled'',
          nb_description = JNull, nb_icon = JNull, nb_color = JNull,
          nb_example_questions = JArr [], nb_generation_status = ''idle''\<rparr>],
      sources =
        [\<lparr>src_id = ''s1'', src_notebook_id = ''n1'', src_content = Some ''some text'',
          src_processing_status = ''pending''\<rparr>]\<rparr>"

definition example_world :: world where
  "example_world =
     \<lparr>env = map_of example_env,
      createClient = (\<lambda>url key. if url = [] then Some ''supabaseUrl is required.''
                       else if key = [] then Some ''supabaseKey is required.'' else None),
      getUser = (Some ''alice'', False),
      store = example_store,
      update_refused = (\<lambda>t k fs. False),
      processor = Responds \<lparr>up_status = 200, up_text = ''{}'', up_json = Inr (JObj [])\<rparr>,
      now_iso = ''2025-01-01T00:00:00.000Z'',
      type_error = ''Cannot destructure property of null''\<rparr>"

definition post :: "string option \<Rightarrow> json \<Rightarrow> request" where
  "post h b = \<lparr>req_method = ''POST'', authorization = h, req_json = Inr b\<rparr>"

text \<open>A processor that answers 503.\<close>

definition unavailable :: fetch_outcome where
  "unavailable = Responds \<lparr>up_status = 503, up_text = ''busy'', up_json = Inl ''Unexpected token''\<rparr>"

definition document_body :: json where
  "document_body =
     JObj [(''sourceId'', JStr ''s1''), (''filePath'', JStr ''docs/a.pdf''),
           (''sourceType'', JStr ''pdf''), (''notebookId'', JStr ''n1'')]"





text \<open>A body with the fields of every job kind.\<close>

definition full_body :: json where
  "full_body =
     JObj [(''sourceId'', JStr ''s1''), (''filePath'', JStr ''docs/a.pdf''),
           (''sourceType'', JStr ''pdf''), (''notebookId'', JStr ''n1''),
           (''type'', JStr ''multiple-websites''), (''urls'', JArr [JStr ''https://a.example'']),
           (''sourceIds'', JArr [JStr ''s1'']), (''timestamp'', JStr ''t0''),
           (''session_id'', JStr ''n1''), (''message'', JStr ''hello'')]"

text \<open>The deployment with a processor that answers 503.\<close>

definition failing_world :: world where
  "failing_world = example_world\<lparr>processor := unavailable\<rparr>"

text \<open>The deployment with one variable of the environment not set.\<close>

definition without :: "string \<Rightarrow> world" where
  "without k = example_world\<lparr>env := (map_of example_env)(k := None)\<rparr>"

text \<open>The preflight of a browser: \<^verbatim>\<open>OPTIONS\<close>, no Authorization header, no body.\<close>

definition preflight :: request where
  "preflight =
     \<lparr>req_method = ''OPTIONS'', authorization = None,
      req_json = Inl ''Unexpected end of JSON input''\<rparr>"

text \<open>The deployment with a processor that answers 204 with an empty body, which is
  not JSON.\<close>

definition no_content :: upstream where
  "no_content =
     \<lparr>up_status = 204, up_text = [], up_json = Inl ''Unexpected end of JSON input''\<rparr>"

definition no_content_world :: world where
  "no_content_world = example_world\<lparr>processor := Responds no_content\<rparr>"

section \<open>Calls that reach the handler's own work\<close>

text \<open>The call is not the preflight, carries the credential \<open>h\<close>, and the identity
  verifier answers with the user \<open>uid\<close> and no error.\<close>

definition verified :: "world \<Rightarrow> request \<Rightarrow> string \<Rightarrow> string \<Rightarrow> bool" where
  "verified w req h uid \<longleftrightarrow>
     req_method req \<noteq> ''OPTIONS'' \<and> authorization req = Some h \<and> h \<noteq> [] \<and>
     createClient w (env_or_empty w ''SUPABASE_URL'') (env_or_empty w ''SUPABASE_ANON_KEY'') = None \<and>
     getUser w = (Some uid, False)"

text \<open>The client with the service role key is made without an exception.\<close>

definition service_client :: "world \<Rightarrow> bool" where
  "service_client w \<longleftrightarrow>
     createClient w (env_or_empty w ''SUPABASE_URL'')
       (env_or_empty w ''SUPABASE_SERVICE_ROLE_KEY'') = None"

section \<open>Responses and steps\<close>

lemma status_json_response [simp]: "status (json_response c kvs) = c"
  by (simp add: json_response_def)

lemma status_json_response' [simp]: "status (json_response' c kvs) = c"
  by (simp add: json_response'_def)

lemma authorization_check_missing:
  "authorization req = None \<Longrightarrow>
   authorization_check w req =
     (Reply (json_response 401 [(''error'', Some (JStr ''Missing authorization header''))]), [])"
  by (simp add: authorization_check_def)

section \<open>Calls without a credential\<close>

text \<open>
  C4, as amended. A call that carries no Authorization header does nothing to the outside
  in any of the four handlers: no lookup, no store write, no dispatch, and the store is
  as it was. It is answered with status 401, unless it is the \<^verbatim>\<open>OPTIONS\<close> preflight,
  which is answered with status 200.
\<close>

theorem missing_authorization_unauthorized:
  assumes "authorization req = None"
  shows "(req_method req \<noteq> ''OPTIONS'' \<longrightarrow>
            status (answer (process_document w req)) = 401
          \<and> status (answer (process_additional_sources w req)) = 401
          \<and> status (answer (send_chat_message w req)) = 401
          \<and> status (answer (generate_notebook_content w req)) = 401)
       \<and> (req_method req = ''OPTIONS'' \<longrightarrow>
            status (answer (process_document w req)) = 200
          \<and> status (answer (process_additional_sources w req)) = 200
          \<and> status (answer (send_chat_message w req)) = 200
          \<and> status (answer (generate_notebook_content w req)) = 200)
       \<and> effects (process_document w req) = [] \<and> final (process_document w req) = store w
       \<and> effects (process_additional_sources w req) = []
       \<and> final (process_additional_sources w req) = store w
       \<and> effects (send_chat_message w req) = [] \<and> final (send_chat_message w req) = store w
       \<and> effects (generate_notebook_content w req) = []
       \<and> final (generate_notebook_content w req) = store w"
  using assms
  by (simp add: process_document_def process_document_try_def
      process_additional_sources_def process_additional_sources_try_def
      send_chat_message_def send_chat_message_try_def
      generate_notebook_content_def generate_notebook_content_try_def
      authorization_check_missing)

theorem missing_authorization_unauthorized_witness:
  "req_method (post None document_body) \<noteq> ''OPTIONS''
   \<and> authorization (post None document_body) = None
   \<and> status (answer (process_document example_world (post None document_body))) = 401
   \<and> effects (process_document example_world (post None document_body)) = []
   \<and> final (process_document example_world (post None document_body)) = example_store
   \<and> status (answer (process_additional_sources example_world (post None document_body))) = 401
   \<and> effects (process_additional_sources example_world (post None document_body)) = []
   \<and> status (answer (send_chat_message example_world (post None document_body))) = 401
   \<and> effects (send_chat_message example_world (post None document_body)) = []
   \<and> status (answer (generate_notebook_content example_world (post None document_body))) = 401
   \<and> effects (generate_notebook_content example_world (post None document_body)) = []
   \<and> req_method preflight = ''OPTIONS'' \<and> authorization preflight = None
   \<and> effects (process_document example_world preflight) = []
   \<and> final (process_document example_world preflight) = example_store
   \<and> effects (process_additional_sources example_world preflight) = []
   \<and> effects (send_chat_message example_world preflight) = []
   \<and> effects (generate_notebook_content example_world preflight) = []"
proof -
  have m1: "req_method (post None document_body) \<noteq> ''OPTIONS''"
    and a1: "authorization (post None document_body) = None"
    by (simp_all add: post_def)
  have m2: "req_method preflight = ''OPTIONS''" and a2: "authorization preflight = None"
    by (simp_all add: preflight_def)
  have s: "store example_world = example_store" by (simp add: example_world_def)
  show ?thesis
    using missing_authorization_unauthorized [OF a1, of example_world]
      missing_authorization_unauthorized [OF a2, of example_world] m1 a1 m2 a2
    by (simp add: s)
qed

text \<open>
  C4 as stated fails at the preflight: it carries no Authorization header and each of
  the four handlers answers it with status 200, before the header is read.
\<close>

theorem preflight_without_credential_counterexample:
  "authorization preflight = None
   \<and> status (answer (process_document example_world preflight)) = 200
   \<and> status (answer (process_additional_sources example_world preflight)) = 200
   \<and> status (answer (send_chat_message example_world preflight)) = 200
   \<and> status (answer (generate_notebook_content example_world preflight)) = 200"
  by (simp add: preflight_def process_document_def process_additional_sources_def
      send_chat_message_def generate_notebook_content_def)

section \<open>Calls on a resource of another user\<close>

lemma authorization_check_verified:
  "verified w req h uid \<Longrightarrow> authorization_check w req = (Proceed uid, [GetUser h])"
  by (simp add: authorization_check_def verified_def)

lemma verified_example:
  "verified (example_world\<lparr>getUser := (Some u, False)\<rparr>) (post (Some ''Bearer t'') b) ''Bearer t'' u"
  by (simp add: verified_def example_world_def post_def env_or_empty_def example_env_def)

lemma service_client_example: "service_client (example_world\<lparr>getUser := g\<rparr>)"
  by (simp add: service_client_def example_world_def env_or_empty_def example_env_def)

lemma process_document_forbidden:
  assumes "verified w req h uid" and "req_json req = Inr b" and "service_client w"
    and "truthy (field b ''sourceId'')" and "truthy (field b ''filePath'')"
    and "truthy (field b ''sourceType'')"
    and "select_source_owner (store w) (template (field b ''sourceId'')) = Some (s, n)"
    and "nb_user_id n \<noteq> uid"
  shows "process_document w req =
     \<lparr>answer = json_response 403
         [(''error'', Some (JStr ''Forbidden - you do not own this resource''))],
      effects = [GetUser h, Select ''sources'' ''id'' (template (field b ''sourceId''))],
      final = store w\<rparr>"
proof -
  have "b \<noteq> JNull" using assms(4) by auto
  with assms show ?thesis
    by (simp add: process_document_def process_document_try_def
        authorization_check_verified [OF assms(1)] service_client_def verified_def Let_def)
qed

lemma additional_sources_forbidden:
  assumes "verified w req h uid" and "req_json req = Inr b" and "service_client w"
    and "b \<noteq> JNull"
    and "select_notebook (store w) (template (field b ''notebookId'')) = Some n"
    and "nb_user_id n \<noteq> uid"
  shows "process_additional_sources w req =
     \<lparr>answer = json_response 403
         [(''error'', Some (JStr ''Forbidden - you do not own this notebook''))],
      effects = [GetUser h, Select ''notebooks'' ''id'' (template (field b ''notebookId''))],
      final = store w\<rparr>"
  using assms
  by (simp add: process_additional_sources_def process_additional_sources_try_def
      authorization_check_verified [OF assms(1)] service_client_def verified_def Let_def)

lemma generate_forbidden:
  assumes "verified w req h uid" and "req_json req = Inr b" and "service_client w"
    and "truthy (field b ''notebookId'')" and "truthy (field b ''sourceType'')"
    and "select_notebook (store w) (template (field b ''notebookId'')) = Some n"
    and "nb_user_id n \<noteq> uid"
  shows "generate_notebook_content w req =
     \<lparr>answer = json_response 403
         [(''error'', Some (JStr ''Forbidden - you do not own this notebook''))],
      effects = [GetUser h, Select ''notebooks'' ''id'' (template (field b ''notebookId''))],
      final = store w\<rparr>"
proof -
  have "b \<noteq> JNull" using assms(4) by auto
  with assms show ?thesis
    by (simp add: generate_notebook_content_def generate_notebook_content_try_def
        authorization_check_verified [OF assms(1)] service_client_def verified_def Let_def)
qed

text \<open>
  C1. When the owner the store resolves for the resource differs from the verified
  caller, each of the three handlers that resolve an owner (process-document through the
  source's notebook, process-additional-sources and generate-notebook-content through
  the notebook) answers with status 403, sends nothing to the processor, writes nothing
  to the store, and leaves the store as it was.
\<close>

theorem owner_mismatch_forbidden:
  assumes "verified w req h uid" and "req_json req = Inr b" and "b \<noteq> JNull"
    and "service_client w" and "owner \<noteq> uid"
  shows "(truthy (field b ''sourceId'') \<and> truthy (field b ''filePath'')
            \<and> truthy (field b ''sourceType'')
            \<and> select_source_owner (store w) (template (field b ''sourceId'')) = Some (s, n)
            \<and> nb_user_id n = owner
          \<longrightarrow> status (answer (process_document w req)) = 403
            \<and> filter is_fetch (effects (process_document w req)) = []
            \<and> filter is_update (effects (process_document w req)) = []
            \<and> final (process_document w req) = store w)
       \<and> (select_notebook (store w) (template (field b ''notebookId'')) = Some n'
            \<and> nb_user_id n' = owner
          \<longrightarrow> status (answer (process_additional_sources w req)) = 403
            \<and> filter is_fetch (effects (process_additional_sources w req)) = []
            \<and> filter is_update (effects (process_additional_sources w req)) = []
            \<and> final (process_additional_sources w req) = store w)
       \<and> (truthy (field b ''notebookId'') \<and> truthy (field b ''sourceType'')
            \<and> select_notebook (store w) (template (field b ''notebookId'')) = Some n'
            \<and> nb_user_id n' = owner
          \<longrightarrow> status (answer (generate_notebook_content w req)) = 403
            \<and> filter is_fetch (effects (generate_notebook_content w req)) = []
            \<and> filter is_update (effects (generate_notebook_content w req)) = []
            \<and> final (generate_notebook_content w req) = store w)"
proof (intro conjI impI)
  assume a: "truthy (field b ''sourceId'') \<and> truthy (field b ''filePath'')
            \<and> truthy (field b ''sourceType'')
            \<and> select_source_owner (store w) (template (field b ''sourceId'')) = Some (s, n)
            \<and> nb_user_id n = owner"
  with assms have e: "process_document w req =
     \<lparr>answer = json_response 403
         [(''error'', Some (JStr ''Forbidden - you do not own this resource''))],
      effects = [GetUser h, Select ''sources'' ''id'' (template (field b ''sourceId''))],
      final = store w\<rparr>"
    by (intro process_document_forbidden) auto
  show "status (answer (process_document w req)) = 403" by (simp add: e)
  show "filter is_fetch (effects (process_document w req)) = []" by (simp add: e)
  show "filter is_update (effects (process_document w req)) = []" by (simp add: e)
  show "final (process_document w req) = store w" by (simp add: e)
next
  assume a: "select_notebook (store w) (template (field b ''notebookId'')) = Some n'
            \<and> nb_user_id n' = owner"
  with assms have e: "process_additional_sources w req =
     \<lparr>answer = json_response 403
         [(''error'', Some (JStr ''Forbidden - you do not own this notebook''))],
      effects = [GetUser h, Select ''notebooks'' ''id'' (template (field b ''notebookId''))],
      final = store w\<rparr>"
    by (intro additional_sources_forbidden) auto
  show "status (answer (process_additional_sources w req)) = 403" by (simp add: e)
  show "filter is_fetch (effects (process_additional_sources w req)) = []" by (simp add: e)
  show "filter is_update (effects (process_additional_sources w req)) = []" by (simp add: e)
  show "final (process_additional_sources w req) = store w" by (simp add: e)
next
  assume a: "truthy (field b ''notebookId'') \<and> truthy (field b ''sourceType'')
            \<and> select_notebook (store w) (template (field b ''notebookId'')) = Some n'
            \<and> nb_user_id n' = owner"
  with assms have e: "generate_notebook_content w req =
     \<lparr>answer = json_response 403
         [(''error'', Some (JStr ''Forbidden - you do not own this notebook''))],
      effects = [GetUser h, Select ''notebooks'' ''id'' (template (field b ''notebookId''))],
      final = store w\<rparr>"
    by (intro generate_forbidden) auto
  show "status (answer (generate_notebook_content w req)) = 403" by (simp add: e)
  show "filter is_fetch (effects (generate_notebook_content w req)) = []" by (simp add: e)
  show "filter is_update (effects (generate_notebook_content w req)) = []" by (simp add: e)
  show "final (generate_notebook_content w req) = store w" by (simp add: e)
qed


theorem owner_mismatch_forbidden_witness:
  "verified (example_world\<lparr>getUser := (Some ''bob'', False)\<rparr>)
     (post (Some ''Bearer t'') document_body) ''Bearer t'' ''bob''
   \<and> req_json (post (Some ''Bearer t'') document_body) = Inr document_body
   \<and> document_body \<noteq> JNull
   \<and> service_client (example_world\<lparr>getUser := (Some ''bob'', False)\<rparr>)
   \<and> ''alice'' \<noteq> ''bob''
   \<and> truthy (field document_body ''sourceId'') \<and> truthy (field document_body ''filePath'')
   \<and> truthy (field document_body ''sourceType'') \<and> truthy (field document_body ''notebookId'')
   \<and> select_source_owner (store (example_world\<lparr>getUser := (Some ''bob'', False)\<rparr>))
        (template (field document_body ''sourceId''))
       = Some (hd (sources example_store), hd (notebooks example_store))
   \<and> select_notebook (store (example_world\<lparr>getUser := (Some ''bob'', False)\<rparr>))
        (template (field document_body ''notebookId'')) = Some (hd (notebooks example_store))
   \<and> nb_user_id (hd (notebooks example_store)) = ''alice''
   \<and> status (answer (process_document (example_world\<lparr>getUser := (Some ''bob'', False)\<rparr>)
        (post (Some ''Bearer t'') document_body))) = 403
   \<and> filter is_fetch (effects (process_document
        (example_world\<lparr>getUser := (Some ''bob'', False)\<rparr>)
        (post (Some ''Bearer t'') document_body))) = []
   \<and> filter is_update (effects (process_document
        (example_world\<lparr>getUser := (Some ''bob'', False)\<rparr>)
        (post (Some ''Bearer t'') document_body))) = []
   \<and> status (answer (process_additional_sources
        (example_world\<lparr>getUser := (Some ''bob'', False)\<rparr>)
        (post (Some ''Bearer t'') document_body))) = 403
   \<and> filter is_fetch (effects (process_additional_sources
        (example_world\<lparr>getUser := (Some ''bob'', False)\<rparr>)
        (post (Some ''Bearer t'') document_body))) = []
   \<and> status (answer (generate_notebook_content
        (example_world\<lparr>getUser := (Some ''bob'', False)\<rparr>)
        (post (Some ''Bearer t'') document_body))) = 403
   \<and> filter is_fetch (effects (generate_notebook_content
        (example_world\<lparr>getUser := (Some ''bob'', False)\<rparr>)
        (post (Some ''Bearer t'') document_body))) = []
   \<and> filter is_update (effects (generate_notebook_content
        (example_world\<lparr>getUser := (Some ''bob'', False)\<rparr>)
        (post (Some ''Bearer t'') document_body))) = []"
proof -
  let ?w = "example_world\<lparr>getUser := (Some ''bob'', False)\<rparr>"
  let ?r = "post (Some ''Bearer t'') document_body"
  have v: "verified ?w ?r ''Bearer t'' ''bob''" by (rule verified_example)
  have j: "req_json ?r = Inr document_body" by (simp add: post_def)
  have nn: "document_body \<noteq> JNull" by (simp add: document_body_def)
  have sc: "service_client ?w" by (rule service_client_example)
  have ne: "''alice'' \<noteq> ''bob''" by simp
  have f: "truthy (field document_body ''sourceId'') \<and> truthy (field document_body ''filePath'')
     \<and> truthy (field document_body ''sourceType'') \<and> truthy (field document_body ''notebookId'')"
    by (simp add: document_body_def)
  have so: "select_source_owner (store ?w) (template (field document_body ''sourceId''))
       = Some (hd (sources example_store), hd (notebooks example_store))"
    by (simp add: example_world_def example_store_def document_body_def
        select_source_owner_def single_def)
  have sn: "select_notebook (store ?w) (template (field document_body ''notebookId''))
       = Some (hd (notebooks example_store))"
    by (simp add: example_world_def example_store_def document_body_def
        select_notebook_def single_def)
  have o: "nb_user_id (hd (notebooks example_store)) = ''alice''"
    by (simp add: example_store_def)
  show ?thesis
    using owner_mismatch_forbidden [OF v j nn sc ne,
        of "hd (sources example_store)" "hd (notebooks example_store)"
           "hd (notebooks example_store)"]
      v j nn sc f so sn o
    by simp
qed

section \<open>The document-processing scenario\<close>

lemma process_document_owned:
  assumes "verified w req h uid" and "req_json req = Inr b" and "service_client w"
    and "truthy (field b ''sourceId'')" and "truthy (field b ''filePath'')"
    and "truthy (field b ''sourceType'')"
    and "select_source_owner (store w) (template (field b ''sourceId'')) = Some (s, n)"
    and "nb_user_id n = uid"
  shows "process_document_try w req =
     process_document_dispatch w (field b ''sourceId'') (field b ''filePath'')
       (field b ''sourceType'')
       [GetUser h, Select ''sources'' ''id'' (template (field b ''sourceId''))]"
proof -
  have "b \<noteq> JNull" using assms(4) by auto
  with assms show ?thesis
    by (simp add: process_document_try_def
        authorization_check_verified [OF assms(1)] service_client_def Let_def)
qed

text \<open>
  C7, as amended. A document-processing call with \<open>sourceId = "s1"\<close>,
  \<open>filePath = "docs/a.pdf"\<close> and \<open>sourceType = "pdf"\<close>, made by the owner of the notebook
  of \<open>s1\<close>, with the store URL \<open>base\<close> and the processor's endpoint configured and a 2xx
  answer of the processor, sends exactly one payload: \<open>source_id\<close>, \<open>file_url\<close> (\<open>base\<close>
  followed by \<open>/storage/v1/object/public/sources/docs/a.pdf\<close>), \<open>file_path\<close>,
  \<open>source_type\<close> and \<open>callback_url\<close> (\<open>base\<close> followed by
  \<open>/functions/v1/process-document-callback\<close>), in this order. The response status is 200
  when the body of the processor's answer is JSON, and 500 when it is not.
\<close>

theorem document_scenario_payload:
  assumes "verified w req h uid" and "req_json req = Inr b" and "service_client w"
    and "field b ''sourceId'' = Some (JStr ''s1'')"
    and "field b ''filePath'' = Some (JStr ''docs/a.pdf'')"
    and "field b ''sourceType'' = Some (JStr ''pdf'')"
    and "select_source_owner (store w) ''s1'' = Some (s, n)" and "nb_user_id n = uid"
    and "env w ''SUPABASE_URL'' = Some base"
    and "env w ''DOCUMENT_PROCESSING_WEBHOOK_URL'' = Some url" and "url \<noteq> []"
    and "processor w = Responds r" and "ok r"
  shows "dispatched (effects (process_document w req)) =
           [JObj [(''source_id'', JStr ''s1''),
                  (''file_url'', JStr (base @ ''/storage/v1/object/public/sources/docs/a.pdf'')),
                  (''file_path'', JStr ''docs/a.pdf''),
                  (''source_type'', JStr ''pdf''),
                  (''callback_url'', JStr (base @ ''/functions/v1/process-document-callback''))]]
       \<and> (up_json r = Inr result \<longrightarrow> status (answer (process_document w req)) = 200)
       \<and> (up_json r = Inl m \<longrightarrow> status (answer (process_document w req)) = 500)"
proof -
  have t: "process_document_try w req =
     process_document_dispatch w (field b ''sourceId'') (field b ''filePath'')
       (field b ''sourceType'')
       [GetUser h, Select ''sources'' ''id'' (template (field b ''sourceId''))]"
    using assms(1-8) by (intro process_document_owned) auto
  have nd: "req_method req \<noteq> ''OPTIONS''" using assms(1) by (simp add: verified_def)
  show ?thesis
  proof (cases "up_json r")
    case (Inl e)
    then show ?thesis
      using assms(4-6,9-13) nd
      by (simp add: process_document_def t process_document_dispatch_def document_payload_def
          Let_def)
  next
    case (Inr j)
    then show ?thesis
      using assms(4-6,9-13) nd
      by (simp add: process_document_def t process_document_dispatch_def document_payload_def
          Let_def)
  qed
qed

lemma document_scenario_facts:
  "req_json (post (Some ''Bearer t'') document_body) = Inr document_body"
  "field document_body ''sourceId'' = Some (JStr ''s1'')"
  "field document_body ''filePath'' = Some (JStr ''docs/a.pdf'')"
  "field document_body ''sourceType'' = Some (JStr ''pdf'')"
  "select_source_owner example_store ''s1''
     = Some (hd (sources example_store), hd (notebooks example_store))"
  "nb_user_id (hd (notebooks example_store)) = ''alice''"
  "map_of example_env ''SUPABASE_URL'' = Some ''https://db.example''"
  "map_of example_env ''DOCUMENT_PROCESSING_WEBHOOK_URL'' = Some ''https://flow.example/doc''"
  by (simp_all add: post_def document_body_def example_store_def select_source_owner_def
      single_def example_env_def)

lemma no_content_world_facts:
  "verified no_content_world (post (Some ''Bearer t'') b) ''Bearer t'' ''alice''"
  "service_client no_content_world"
  "store no_content_world = example_store"
  "env no_content_world = map_of example_env"
  "processor no_content_world = Responds no_content"
  "ok no_content"
  "up_json no_content = Inl ''Unexpected end of JSON input''"
  by (simp_all add: verified_def service_client_def no_content_world_def example_world_def
      post_def env_or_empty_def example_env_def no_content_def ok_def)

theorem document_scenario_payload_witness:
  "verified example_world (post (Some ''Bearer t'') document_body) ''Bearer t'' ''alice''
   \<and> service_client example_world
   \<and> field document_body ''sourceId'' = Some (JStr ''s1'')
   \<and> field document_body ''filePath'' = Some (JStr ''docs/a.pdf'')
   \<and> field document_body ''sourceType'' = Some (JStr ''pdf'')
   \<and> select_source_owner (store example_world) ''s1''
       = Some (hd (sources example_store), hd (notebooks example_store))
   \<and> nb_user_id (hd (notebooks example_store)) = ''alice''
   \<and> env example_world ''SUPABASE_URL'' = Some ''https://db.example''
   \<and> env example_world ''DOCUMENT_PROCESSING_WEBHOOK_URL'' = Some ''https://flow.example/doc''
   \<and> processor example_world
       = Responds \<lparr>up_status = 200, up_text = ''{}'', up_json = Inr (JObj [])\<rparr>
   \<and> ok \<lparr>up_status = 200, up_text = ''{}'', up_json = Inr (JObj [])\<rparr>
   \<and> dispatched (effects (process_document example_world
        (post (Some ''Bearer t'') document_body))) =
           [JObj [(''source_id'', JStr ''s1''),
                  (''file_url'',
                   JStr ''https://db.example/storage/v1/object/public/sources/docs/a.pdf''),
                  (''file_path'', JStr ''docs/a.pdf''),
                  (''source_type'', JStr ''pdf''),
                  (''callback_url'',
                   JStr ''https://db.example/functions/v1/process-document-callback'')]]
   \<and> status (answer (process_document example_world
        (post (Some ''Bearer t'') document_body))) = 200
   \<and> verified no_content_world (post (Some ''Bearer t'') document_body) ''Bearer t'' ''alice''
   \<and> processor no_content_world = Responds no_content \<and> ok no_content
   \<and> up_json no_content = Inl ''Unexpected end of JSON input''
   \<and> status (answer (process_document no_content_world
        (post (Some ''Bearer t'') document_body))) = 500"
proof -
  let ?r = "post (Some ''Bearer t'') document_body"
  let ?u = "\<lparr>up_status = 200, up_text = ''{}'', up_json = Inr (JObj [])\<rparr>"
  note f = document_scenario_facts
  note nw = no_content_world_facts
  have v: "verified example_world ?r ''Bearer t'' ''alice''"
    using verified_example [of "''alice''" document_body] by (simp add: example_world_def)
  have sc: "service_client example_world"
    using service_client_example [of "(Some ''alice'', False)"] by (simp add: example_world_def)
  have so: "select_source_owner (store example_world) ''s1''
       = Some (hd (sources example_store), hd (notebooks example_store))"
    by (simp add: example_world_def f)
  have e1: "env example_world ''SUPABASE_URL'' = Some ''https://db.example''"
    and e2: "env example_world ''DOCUMENT_PROCESSING_WEBHOOK_URL'' = Some ''https://flow.example/doc''"
    by (simp_all add: example_world_def f)
  have ne: "''https://flow.example/doc'' \<noteq> []" by simp
  have p: "processor example_world = Responds ?u" by (simp add: example_world_def)
  have k: "ok ?u" by (simp add: ok_def)
  have uj: "up_json ?u = Inr (JObj [])" by simp
  have so': "select_source_owner (store no_content_world) ''s1''
       = Some (hd (sources example_store), hd (notebooks example_store))"
    by (simp add: nw f)
  have e1': "env no_content_world ''SUPABASE_URL'' = Some ''https://db.example''"
    and e2': "env no_content_world ''DOCUMENT_PROCESSING_WEBHOOK_URL''
               = Some ''https://flow.example/doc''"
    by (simp_all add: nw f)
  have good: "dispatched (effects (process_document example_world ?r)) =
           [JObj [(''source_id'', JStr ''s1''),
                  (''file_url'',
                   JStr (''https://db.example''
                         @ ''/storage/v1/object/public/sources/docs/a.pdf'')),
                  (''file_path'', JStr ''docs/a.pdf''),
                  (''source_type'', JStr ''pdf''),
                  (''callback_url'',
                   JStr (''https://db.example''
                         @ ''/functions/v1/process-document-callback''))]]
       \<and> status (answer (process_document example_world ?r)) = 200"
    using document_scenario_payload [OF v f(1) sc f(2-4) so f(6) e1 e2 ne p k,
        of "JObj []" "[]"] uj
    by simp
  have bad: "status (answer (process_document no_content_world ?r)) = 500"
    using document_scenario_payload [OF nw(1) f(1) nw(2) f(2-4) so' f(6) e1' e2' ne nw(5,6),
        of "JObj []" "''Unexpected end of JSON input''"] nw(7)
    by simp
  show ?thesis
    using v sc f(2-4) so f(6) e1 e2 p k good nw(1,5,6,7) bad by simp
qed

text \<open>
  C7 as stated fails where the processor answers in the success range with a body that
  is not JSON: the payload of the scenario is sent, \<^verbatim>\<open>response.json()\<close> rejects into the
  \<^verbatim>\<open>catch\<close>, and the response status is 500.
\<close>

theorem document_scenario_no_content_counterexample:
  "verified no_content_world (post (Some ''Bearer t'') document_body) ''Bearer t'' ''alice''
   \<and> field document_body ''sourceId'' = Some (JStr ''s1'')
   \<and> field document_body ''filePath'' = Some (JStr ''docs/a.pdf'')
   \<and> field document_body ''sourceType'' = Some (JStr ''pdf'')
   \<and> select_source_owner (store no_content_world) ''s1''
       = Some (hd (sources example_store), hd (notebooks example_store))
   \<and> nb_user_id (hd (notebooks example_store)) = ''alice''
   \<and> env no_content_world ''SUPABASE_URL'' = Some ''https://db.example''
   \<and> processor no_content_world = Responds no_content
   \<and> up_status no_content = 204 \<and> ok no_content
   \<and> dispatched (effects (process_document no_content_world
        (post (Some ''Bearer t'') document_body))) =
           [JObj [(''source_id'', JStr ''s1''),
                  (''file_url'',
                   JStr ''https://db.example/storage/v1/object/public/sources/docs/a.pdf''),
                  (''file_path'', JStr ''docs/a.pdf''),
                  (''source_type'', JStr ''pdf''),
                  (''callback_url'',
                   JStr ''https://db.example/functions/v1/process-document-callback'')]]
   \<and> status (answer (process_document no_content_world
        (post (Some ''Bearer t'') document_body))) = 500"
proof -
  let ?r = "post (Some ''Bearer t'') document_body"
  note f = document_scenario_facts
  note nw = no_content_world_facts
  have nd: "req_method ?r \<noteq> ''OPTIONS''" by (simp add: post_def)
  have tr: "truthy (field document_body ''sourceId'')" "truthy (field document_body ''filePath'')"
    "truthy (field document_body ''sourceType'')"
    by (simp_all add: f)
  have so: "select_source_owner (store no_content_world)
      (template (field document_body ''sourceId''))
       = Some (hd (sources example_store), hd (notebooks example_store))"
    by (simp add: nw f)
  have t: "process_document_try no_content_world ?r =
     process_document_dispatch no_content_world (field document_body ''sourceId'')
       (field document_body ''filePath'') (field document_body ''sourceType'')
       [GetUser ''Bearer t'',
        Select ''sources'' ''id'' (template (field document_body ''sourceId''))]"
    by (rule process_document_owned [OF nw(1) f(1) nw(2) tr so f(6)])
  have run: "dispatched (effects (process_document no_content_world ?r)) =
           [JObj [(''source_id'', JStr ''s1''),
                  (''file_url'',
                   JStr ''https://db.example/storage/v1/object/public/sources/docs/a.pdf''),
                  (''file_path'', JStr ''docs/a.pdf''),
                  (''source_type'', JStr ''pdf''),
                  (''callback_url'',
                   JStr ''https://db.example/functions/v1/process-document-callback'')]]
     \<and> status (answer (process_document no_content_world ?r)) = 500"
    using nd
    by (simp add: process_document_def t process_document_dispatch_def document_payload_def
        nw f Let_def)
  have st: "up_status no_content = 204" by (simp add: no_content_def)
  show ?thesis
    using nw(1,5,6) f(2-4,6) st run by (simp add: nw(3,4) f)
qed

section \<open>Truncation of text content\<close>

lemma dispatched_append [simp]: "dispatched (xs @ ys) = dispatched xs @ dispatched ys"
  by (induction xs rule: dispatched.induct) simp_all

lemma sources_set_generation_status [simp]:
  "sources (set_generation_status w d k v) = sources d"
  by (simp add: set_generation_status_def)

lemma select_source_content_generation_status [simp]:
  "select_source_content (set_generation_status w d k v) k' = select_source_content d k'"
  by (simp add: select_source_content_def)

lemma dispatched_update_generation_status [simp]:
  "dispatched (fst (update_generation_status w k v td)) = dispatched (fst td)"
  by (simp add: update_generation_status_def)

lemma generate_store_result_dispatched [simp]:
  "dispatched (fst (snd (generate_store_result w k g td))) = dispatched (fst td)"
  by (simp add: generate_store_result_def Let_def)

lemma generate_dispatch_dispatched:
  assumes "truthy_str (env w ''NOTEBOOK_GENERATION_URL'')"
    and "truthy_str (env w ''NOTEBOOK_GENERATION_AUTH'')"
  shows "dispatched (fst (snd (generate_dispatch w notebookId filePath sourceType tr))) =
     dispatched tr @
     [generation_payload sourceType filePath
        (if truthy filePath then None
         else select_source_content (store w) (template notebookId))]"
  using assms
  by (simp add: generate_dispatch_def Let_def update_generation_status_def
      split: fetch_outcome.split sum.split)

lemma generate_owned:
  assumes "verified w req h uid" and "req_json req = Inr b" and "service_client w"
    and "truthy (field b ''notebookId'')" and "truthy (field b ''sourceType'')"
    and "select_notebook (store w) (template (field b ''notebookId'')) = Some n"
    and "nb_user_id n = uid"
  shows "generate_notebook_content_try w req =
     generate_dispatch w (field b ''notebookId'') (field b ''filePath'') (field b ''sourceType'')
       [GetUser h, Select ''notebooks'' ''id'' (template (field b ''notebookId''))]"
proof -
  have "b \<noteq> JNull" using assms(4) by auto
  with assms show ?thesis
    by (simp add: generate_notebook_content_try_def
        authorization_check_verified [OF assms(1)] service_client_def Let_def)
qed

lemma effects_generate:
  "req_method req \<noteq> ''OPTIONS'' \<Longrightarrow>
   effects (generate_notebook_content w req) = fst (snd (generate_notebook_content_try w req))"
  by (simp add: generate_notebook_content_def split: prod.split sum.split)

lemma generate_dispatched:
  assumes "verified w req h uid" and "req_json req = Inr b" and "service_client w"
    and "truthy (field b ''notebookId'')" and "truthy (field b ''sourceType'')"
    and "select_notebook (store w) (template (field b ''notebookId'')) = Some n"
    and "nb_user_id n = uid"
    and "truthy_str (env w ''NOTEBOOK_GENERATION_URL'')"
    and "truthy_str (env w ''NOTEBOOK_GENERATION_AUTH'')"
  shows "dispatched (effects (generate_notebook_content w req)) =
     [generation_payload (field b ''sourceType'') (field b ''filePath'')
        (if truthy (field b ''filePath'') then None
         else select_source_content (store w) (template (field b ''notebookId'')))]"
proof -
  have m: "req_method req \<noteq> ''OPTIONS''" using assms(1) by (simp add: verified_def)
  show ?thesis
    by (simp add: effects_generate [OF m] generate_owned [OF assms(1-7)]
        generate_dispatch_dispatched [OF assms(8,9)])
qed









section \<open>Requests of an unknown type\<close>

lemma additional_sources_owned:
  assumes "verified w req h uid" and "req_json req = Inr b" and "b \<noteq> JNull"
    and "service_client w"
    and "select_notebook (store w) (template (field b ''notebookId'')) = Some n"
    and "nb_user_id n = uid"
  shows "process_additional_sources_try w req =
     additional_sources_dispatch w b
       [GetUser h, Select ''notebooks'' ''id'' (template (field b ''notebookId''))]"
  using assms
  by (simp add: process_additional_sources_try_def
      authorization_check_verified [OF assms(1)] service_client_def Let_def)






section \<open>A processor that answers outside the success range\<close>

lemma single_map: "single (map f xs) = map_option f (single xs)"
  by (cases xs rule: list.exhaust; cases "tl xs") (auto simp: single_def)












lemma verified_failing:
  "verified failing_world (post (Some ''Bearer t'') b) ''Bearer t'' ''alice''"
  by (simp add: verified_def failing_world_def example_world_def post_def env_or_empty_def
      example_env_def)

lemma service_client_failing: "service_client failing_world"
  by (simp add: service_client_def failing_world_def example_world_def env_or_empty_def
      example_env_def)

lemma env_failing: "env failing_world = map_of example_env"
  by (simp add: failing_world_def example_world_def)

lemma store_failing: "store failing_world = example_store"
  by (simp add: failing_world_def example_world_def)




section \<open>A deployment without its dispatch configuration\<close>

lemma filter_is_update_append_processing [simp]:
  "filter is_update (fst (update_processing_status w k v td)) =
     filter is_update (fst td) @ [Update ''sources'' k [(''processing_status'', JStr v)]]"
  by (simp add: update_processing_status_def)



lemma generate_dispatch_unconfigured:
  assumes "\<not> truthy_str (env w ''NOTEBOOK_GENERATION_URL'')
           \<or> \<not> truthy_str (env w ''NOTEBOOK_GENERATION_AUTH'')"
  shows "generate_dispatch w notebookId filePath sourceType tr =
     (Inr (json_response 500 [(''error'', Some (JStr ''Web service configuration missing''))]),
      tr, store w)"
  using assms by (auto simp: generate_dispatch_def Let_def)



lemma effects_process_document:
  "req_method req \<noteq> ''OPTIONS'' \<Longrightarrow>
   effects (process_document w req) = fst (snd (process_document_try w req))"
  by (simp add: process_document_def split: prod.split sum.split)





lemma store_without [simp]: "store (without k) = example_store"
  by (simp add: without_def example_world_def)



lemma update_refused_without [simp]: "\<not> update_refused (without k) t i fs"
  by (simp add: without_def example_world_def)

lemma full_body_fields:
  "truthy (field full_body ''sourceId'')" "truthy (field full_body ''filePath'')"
  "truthy (field full_body ''sourceType'')" "truthy (field full_body ''notebookId'')"
  "full_body \<noteq> JNull"
  "template (field full_body ''sourceId'') = ''s1''"
  "template (field full_body ''notebookId'') = ''n1''"
  by (simp_all add: full_body_def)

lemma example_store_lookups:
  "select_source_owner example_store ''s1''
     = Some (hd (sources example_store), hd (notebooks example_store))"
  "select_notebook example_store ''n1'' = Some (hd (notebooks example_store))"
  "nb_user_id (hd (notebooks example_store)) = ''alice''"
  by (simp_all add: example_store_def select_source_owner_def select_notebook_def single_def)



section \<open>The status written before the dispatch\<close>







lemma example_world_facts:
  "verified example_world (post (Some ''Bearer t'') b) ''Bearer t'' ''alice''"
  "service_client example_world"
  "store example_world = example_store"
  "env example_world = map_of example_env"
  "processor example_world =
     Responds \<lparr>up_status = 200, up_text = ''{}'', up_json = Inr (JObj [])\<rparr>"
  by (simp_all add: verified_def service_client_def example_world_def post_def env_or_empty_def
      example_env_def)



section \<open>Bodies that lack a field\<close>



lemma additional_sources_dispatch_dispatched:
  assumes "truthy_str (env w ''ADDITIONAL_SOURCES_WEBHOOK_URL'')"
    and "truthy_str (env w ''NOTEBOOK_GENERATION_AUTH'')"
    and "additional_sources_payload b = Some p"
  shows "dispatched (fst (snd (additional_sources_dispatch w b tr))) = dispatched tr @ [p]"
  using assms
  by (simp add: additional_sources_dispatch_def Let_def split: fetch_outcome.split)

lemma effects_additional_sources:
  "req_method req \<noteq> ''OPTIONS'' \<Longrightarrow>
   effects (process_additional_sources w req) = fst (snd (process_additional_sources_try w req))"
  by (simp add: process_additional_sources_def split: prod.split sum.split)




section \<open>What the payload depends on\<close>

lemma dispatched_update_processing_status [simp]:
  "dispatched (fst (update_processing_status w k v td)) = dispatched (fst td)"
  by (simp add: update_processing_status_def)

lemma process_document_dispatch_sends:
  "dispatched (fst (snd (process_document_dispatch w sourceId filePath sourceType tr))) =
     dispatched tr @
     (if truthy_str (env w ''DOCUMENT_PROCESSING_WEBHOOK_URL'')
      then [document_payload w sourceId filePath sourceType] else [])"
  by (simp add: process_document_dispatch_def Let_def split: fetch_outcome.split sum.split)

lemma generate_dispatch_sends:
  "dispatched (fst (snd (generate_dispatch w notebookId filePath sourceType tr))) =
     dispatched tr @
     (if truthy_str (env w ''NOTEBOOK_GENERATION_URL'')
         \<and> truthy_str (env w ''NOTEBOOK_GENERATION_AUTH'')
      then [generation_payload sourceType filePath
              (if truthy filePath then None
               else select_source_content (store w) (template notebookId))]
      else [])"
proof (cases "truthy_str (env w ''NOTEBOOK_GENERATION_URL'')
         \<and> truthy_str (env w ''NOTEBOOK_GENERATION_AUTH'')")
  case True
  then show ?thesis by (simp add: generate_dispatch_dispatched)
next
  case False
  then have "\<not> truthy_str (env w ''NOTEBOOK_GENERATION_URL'')
           \<or> \<not> truthy_str (env w ''NOTEBOOK_GENERATION_AUTH'')" by blast
  from generate_dispatch_unconfigured [OF this] False show ?thesis by simp
qed

lemma additional_sources_dispatch_sends:
  "dispatched (fst (snd (additional_sources_dispatch w b tr))) =
     dispatched tr @
     (if truthy_str (env w ''ADDITIONAL_SOURCES_WEBHOOK_URL'')
         \<and> truthy_str (env w ''NOTEBOOK_GENERATION_AUTH'')
      then (case additional_sources_payload b of None \<Rightarrow> [] | Some p \<Rightarrow> [p])
      else [])"
  by (simp add: additional_sources_dispatch_def Let_def
      split: fetch_outcome.split option.split)

lemma authorization_check_cases:
  "(\<exists>r tr. authorization_check w req = (Reply r, tr) \<and> dispatched tr = [])
   \<or> (\<exists>m tr. authorization_check w req = (Throw m, tr) \<and> dispatched tr = [])
   \<or> (\<exists>uid tr. authorization_check w req = (Proceed uid, tr) \<and> dispatched tr = []
        \<and> fst (getUser w) = Some uid)"
  by (simp add: authorization_check_def split: option.split)

lemma process_document_sends:
  "dispatched (effects (process_document w req)) = []
   \<or> (\<exists>b. req_json req = Inr b
        \<and> dispatched (effects (process_document w req)) =
            [document_payload w (field b ''sourceId'') (field b ''filePath'')
               (field b ''sourceType'')])"
proof (cases "req_method req = ''OPTIONS''")
  case True
  then show ?thesis by (simp add: process_document_def)
next
  case False
  let ?goal = "\<lambda>x. dispatched (fst (snd x)) = []
   \<or> (\<exists>b. req_json req = Inr b
        \<and> dispatched (fst (snd x)) =
            [document_payload w (field b ''sourceId'') (field b ''filePath'')
               (field b ''sourceType'')])"
  have "?goal (process_document_try w req)"
  proof -
    consider (reply) r tr where "authorization_check w req = (Reply r, tr)" "dispatched tr = []"
      | (throw) m tr where "authorization_check w req = (Throw m, tr)" "dispatched tr = []"
      | (proceed) uid tr where "authorization_check w req = (Proceed uid, tr)"
          "dispatched tr = []"
      using authorization_check_cases [of w req] by blast
    then show ?thesis
    proof cases
      case reply
      then show ?thesis by (simp add: process_document_try_def)
    next
      case throw
      then show ?thesis by (simp add: process_document_try_def)
    next
      case proceed
      show ?thesis
      proof (cases "req_json req")
        case (Inl m)
        with proceed show ?thesis by (simp add: process_document_try_def)
      next
        case (Inr b)
        show ?thesis
        proof (cases "b = JNull \<or> \<not> truthy (field b ''sourceId'')
            \<or> \<not> truthy (field b ''filePath'') \<or> \<not> truthy (field b ''sourceType'')")
          case True
          with proceed Inr show ?thesis by (auto simp: process_document_try_def Let_def)
        next
          case valid: False
          show ?thesis
          proof (cases "createClient w (env_or_empty w ''SUPABASE_URL'')
                              (env_or_empty w ''SUPABASE_SERVICE_ROLE_KEY'')")
            case (Some m)
            with proceed Inr valid show ?thesis
              by (simp add: process_document_try_def Let_def)
          next
            case None
            show ?thesis
            proof (cases "select_source_owner (store w) (template (field b ''sourceId''))")
              case no_row: None
              with proceed Inr valid None show ?thesis
                by (simp add: process_document_try_def Let_def)
            next
              case (Some sn)
              with proceed Inr valid None show ?thesis
                by (simp add: process_document_try_def Let_def process_document_dispatch_sends)
            qed
          qed
        qed
      qed
    qed
  qed
  then show ?thesis by (simp add: effects_process_document [OF False])
qed

lemma additional_sources_sends:
  "dispatched (effects (process_additional_sources w req)) = []
   \<or> (\<exists>b p. req_json req = Inr b \<and> additional_sources_payload b = Some p
        \<and> dispatched (effects (process_additional_sources w req)) = [p])"
proof (cases "req_method req = ''OPTIONS''")
  case True
  then show ?thesis by (simp add: process_additional_sources_def)
next
  case False
  let ?goal = "\<lambda>x. dispatched (fst (snd x)) = []
   \<or> (\<exists>b p. req_json req = Inr b \<and> additional_sources_payload b = Some p
        \<and> dispatched (fst (snd x)) = [p])"
  have "?goal (process_additional_sources_try w req)"
  proof -
    consider (reply) r tr where "authorization_check w req = (Reply r, tr)" "dispatched tr = []"
      | (throw) m tr where "authorization_check w req = (Throw m, tr)" "dispatched tr = []"
      | (proceed) uid tr where "authorization_check w req = (Proceed uid, tr)"
          "dispatched tr = []"
      using authorization_check_cases [of w req] by blast
    then show ?thesis
    proof cases
      case reply
      then show ?thesis by (simp add: process_additional_sources_try_def)
    next
      case throw
      then show ?thesis by (simp add: process_additional_sources_try_def)
    next
      case proceed
      show ?thesis
      proof (cases "req_json req")
        case (Inl m)
        with proceed show ?thesis by (simp add: process_additional_sources_try_def)
      next
        case (Inr b)
        show ?thesis
        proof (cases "b = JNull")
          case True
          with proceed Inr show ?thesis by (simp add: process_additional_sources_try_def)
        next
          case valid: False
          show ?thesis
          proof (cases "createClient w (env_or_empty w ''SUPABASE_URL'')
                              (env_or_empty w ''SUPABASE_SERVICE_ROLE_KEY'')")
            case (Some m)
            with proceed Inr valid show ?thesis
              by (simp add: process_additional_sources_try_def Let_def)
          next
            case None
            show ?thesis
            proof (cases "select_notebook (store w) (template (field b ''notebookId''))")
              case no_row: None
              with proceed Inr valid None show ?thesis
                by (simp add: process_additional_sources_try_def Let_def)
            next
              case (Some n)
              with proceed Inr valid None show ?thesis
                by (simp add: process_additional_sources_try_def Let_def
                    additional_sources_dispatch_sends split: option.split)
            qed
          qed
        qed
      qed
    qed
  qed
  then show ?thesis by (simp add: effects_additional_sources [OF False])
qed

lemma generate_sends:
  "dispatched (effects (generate_notebook_content w req)) = []
   \<or> (\<exists>b. req_json req = Inr b
        \<and> dispatched (effects (generate_notebook_content w req)) =
            [generation_payload (field b ''sourceType'') (field b ''filePath'')
               (if truthy (field b ''filePath'') then None
                else select_source_content (store w) (template (field b ''notebookId'')))])"
proof (cases "req_method req = ''OPTIONS''")
  case True
  then show ?thesis by (simp add: generate_notebook_content_def)
next
  case False
  let ?goal = "\<lambda>x. dispatched (fst (snd x)) = []
   \<or> (\<exists>b. req_json req = Inr b
        \<and> dispatched (fst (snd x)) =
            [generation_payload (field b ''sourceType'') (field b ''filePath'')
               (if truthy (field b ''filePath'') then None
                else select_source_content (store w) (template (field b ''notebookId'')))])"
  have "?goal (generate_notebook_content_try w req)"
  proof -
    consider (reply) r tr where "authorization_check w req = (Reply r, tr)" "dispatched tr = []"
      | (throw) m tr where "authorization_check w req = (Throw m, tr)" "dispatched tr = []"
      | (proceed) uid tr where "authorization_check w req = (Proceed uid, tr)"
          "dispatched tr = []"
      using authorization_check_cases [of w req] by blast
    then show ?thesis
    proof cases
      case reply
      then show ?thesis by (simp add: generate_notebook_content_try_def)
    next
      case throw
      then show ?thesis by (simp add: generate_notebook_content_try_def)
    next
      case proceed
      show ?thesis
      proof (cases "req_json req")
        case (Inl m)
        with proceed show ?thesis by (simp add: generate_notebook_content_try_def)
      next
        case (Inr b)
        show ?thesis
        proof (cases "b = JNull \<or> \<not> truthy (field b ''notebookId'')
            \<or> \<not> truthy (field b ''sourceType'')")
          case True
          with proceed Inr show ?thesis
            by (auto simp: generate_notebook_content_try_def Let_def)
        next
          case valid: False
          show ?thesis
          proof (cases "createClient w (env_or_empty w ''SUPABASE_URL'')
                              (env_or_empty w ''SUPABASE_SERVICE_ROLE_KEY'')")
            case (Some m)
            with proceed Inr valid show ?thesis
              by (simp add: generate_notebook_content_try_def Let_def)
          next
            case None
            show ?thesis
            proof (cases "select_notebook (store w) (template (field b ''notebookId''))")
              case no_row: None
              with proceed Inr valid None show ?thesis
                by (simp add: generate_notebook_content_try_def Let_def)
            next
              case (Some n)
              with proceed Inr valid None show ?thesis
                by (simp add: generate_notebook_content_try_def Let_def
                    generate_dispatch_sends)
            qed
          qed
        qed
      qed
    qed
  qed
  then show ?thesis by (simp add: effects_generate [OF False])
qed

lemma effects_send_chat_message:
  "req_method req \<noteq> ''OPTIONS'' \<Longrightarrow>
   effects (send_chat_message w req) = fst (snd (send_chat_message_try w req))"
  by (simp add: send_chat_message_def split: prod.split sum.split)

lemma send_chat_message_sends:
  "dispatched (effects (send_chat_message w req)) = []
   \<or> (\<exists>b uid. req_json req = Inr b \<and> fst (getUser w) = Some uid
        \<and> dispatched (effects (send_chat_message w req)) =
            [chat_payload (field b ''session_id'') (field b ''message'') uid (now_iso w)])"
proof (cases "req_method req = ''OPTIONS''")
  case True
  then show ?thesis by (simp add: send_chat_message_def)
next
  case False
  let ?goal = "\<lambda>x. dispatched (fst (snd x)) = []
   \<or> (\<exists>b uid. req_json req = Inr b \<and> fst (getUser w) = Some uid
        \<and> dispatched (fst (snd x)) =
            [chat_payload (field b ''session_id'') (field b ''message'') uid (now_iso w)])"
  have "?goal (send_chat_message_try w req)"
  proof -
    consider (reply) r tr where "authorization_check w req = (Reply r, tr)" "dispatched tr = []"
      | (throw) m tr where "authorization_check w req = (Throw m, tr)" "dispatched tr = []"
      | (proceed) uid tr where "authorization_check w req = (Proceed uid, tr)"
          "dispatched tr = []" "fst (getUser w) = Some uid"
      using authorization_check_cases [of w req] by blast
    then show ?thesis
    proof cases
      case reply
      then show ?thesis by (simp add: send_chat_message_try_def)
    next
      case throw
      then show ?thesis by (simp add: send_chat_message_try_def)
    next
      case proceed
      show ?thesis
      proof (cases "req_json req")
        case (Inl m)
        with proceed show ?thesis by (simp add: send_chat_message_try_def)
      next
        case (Inr b)
        show ?thesis
        proof (cases "b = JNull")
          case True
          with proceed Inr show ?thesis by (simp add: send_chat_message_try_def)
        next
          case valid: False
          with proceed Inr show ?thesis
            by (simp add: send_chat_message_try_def Let_def
                split: fetch_outcome.split sum.split)
        qed
      qed
    qed
  qed
  then show ?thesis by (simp add: effects_send_chat_message [OF False])
qed

lemma document_payload_env:
  "env w1 = env w2 \<Longrightarrow> document_payload w1 a b c = document_payload w2 a b c"
  by (simp add: document_payload_def)

text \<open>
  C9, as amended. Two calls with the same request body in deployments with the same
  environment that both dispatch send the same payload: in process-document and
  process-additional-sources with no further condition, in generate-notebook-content when
  the two stores hold the same sources (the text of the source is read from the store),
  and in send-chat-message when the identity verifier names the same user and the clock
  reads the same (the payload carries \<open>user_id\<close> and a timestamp taken at the call). The
  body sent is the serialisation of the payload, a function of it.
\<close>

theorem payload_determined:
  assumes "req_json r1 = req_json r2" and "env w1 = env w2"
  shows "(dispatched (effects (process_document w1 r1)) \<noteq> []
            \<and> dispatched (effects (process_document w2 r2)) \<noteq> []
          \<longrightarrow> dispatched (effects (process_document w1 r1)) =
                dispatched (effects (process_document w2 r2)))
       \<and> (dispatched (effects (process_additional_sources w1 r1)) \<noteq> []
            \<and> dispatched (effects (process_additional_sources w2 r2)) \<noteq> []
          \<longrightarrow> dispatched (effects (process_additional_sources w1 r1)) =
                dispatched (effects (process_additional_sources w2 r2)))
       \<and> (sources (store w1) = sources (store w2)
            \<and> dispatched (effects (generate_notebook_content w1 r1)) \<noteq> []
            \<and> dispatched (effects (generate_notebook_content w2 r2)) \<noteq> []
          \<longrightarrow> dispatched (effects (generate_notebook_content w1 r1)) =
                dispatched (effects (generate_notebook_content w2 r2)))
       \<and> (fst (getUser w1) = fst (getUser w2) \<and> now_iso w1 = now_iso w2
            \<and> dispatched (effects (send_chat_message w1 r1)) \<noteq> []
            \<and> dispatched (effects (send_chat_message w2 r2)) \<noteq> []
          \<longrightarrow> dispatched (effects (send_chat_message w1 r1)) =
                dispatched (effects (send_chat_message w2 r2)))"
proof (intro conjI impI)
  assume a: "dispatched (effects (process_document w1 r1)) \<noteq> []
            \<and> dispatched (effects (process_document w2 r2)) \<noteq> []"
  obtain b1 where b1: "req_json r1 = Inr b1"
    "dispatched (effects (process_document w1 r1)) =
       [document_payload w1 (field b1 ''sourceId'') (field b1 ''filePath'')
          (field b1 ''sourceType'')]"
    using process_document_sends [of w1 r1] a by blast
  obtain b2 where b2: "req_json r2 = Inr b2"
    "dispatched (effects (process_document w2 r2)) =
       [document_payload w2 (field b2 ''sourceId'') (field b2 ''filePath'')
          (field b2 ''sourceType'')]"
    using process_document_sends [of w2 r2] a by blast
  have "b1 = b2" using assms(1) b1(1) b2(1) by simp
  then show "dispatched (effects (process_document w1 r1)) =
        dispatched (effects (process_document w2 r2))"
    by (simp add: b1(2) b2(2) document_payload_env [OF assms(2)])
next
  assume a: "dispatched (effects (process_additional_sources w1 r1)) \<noteq> []
            \<and> dispatched (effects (process_additional_sources w2 r2)) \<noteq> []"
  obtain b1 p1 where b1: "req_json r1 = Inr b1" "additional_sources_payload b1 = Some p1"
    "dispatched (effects (process_additional_sources w1 r1)) = [p1]"
    using additional_sources_sends [of w1 r1] a by blast
  obtain b2 p2 where b2: "req_json r2 = Inr b2" "additional_sources_payload b2 = Some p2"
    "dispatched (effects (process_additional_sources w2 r2)) = [p2]"
    using additional_sources_sends [of w2 r2] a by blast
  have "b1 = b2" using assms(1) b1(1) b2(1) by simp
  then have "p1 = p2" using b1(2) b2(2) by simp
  then show "dispatched (effects (process_additional_sources w1 r1)) =
        dispatched (effects (process_additional_sources w2 r2))"
    by (simp add: b1(3) b2(3))
next
  assume a: "sources (store w1) = sources (store w2)
            \<and> dispatched (effects (generate_notebook_content w1 r1)) \<noteq> []
            \<and> dispatched (effects (generate_notebook_content w2 r2)) \<noteq> []"
  obtain b1 where b1: "req_json r1 = Inr b1"
    "dispatched (effects (generate_notebook_content w1 r1)) =
            [generation_payload (field b1 ''sourceType'') (field b1 ''filePath'')
               (if truthy (field b1 ''filePath'') then None
                else select_source_content (store w1) (template (field b1 ''notebookId'')))]"
    using generate_sends [of w1 r1] a by blast
  obtain b2 where b2: "req_json r2 = Inr b2"
    "dispatched (effects (generate_notebook_content w2 r2)) =
            [generation_payload (field b2 ''sourceType'') (field b2 ''filePath'')
               (if truthy (field b2 ''filePath'') then None
                else select_source_content (store w2) (template (field b2 ''notebookId'')))]"
    using generate_sends [of w2 r2] a by blast
  have e: "b1 = b2" using assms(1) b1(1) b2(1) by simp
  have s: "select_source_content (store w1) k = select_source_content (store w2) k" for k
    using a by (simp add: select_source_content_def)
  show "dispatched (effects (generate_notebook_content w1 r1)) =
        dispatched (effects (generate_notebook_content w2 r2))"
    by (simp only: b1(2) b2(2) e s)
next
  assume a: "fst (getUser w1) = fst (getUser w2) \<and> now_iso w1 = now_iso w2
            \<and> dispatched (effects (send_chat_message w1 r1)) \<noteq> []
            \<and> dispatched (effects (send_chat_message w2 r2)) \<noteq> []"
  obtain b1 u1 where b1: "req_json r1 = Inr b1" "fst (getUser w1) = Some u1"
    "dispatched (effects (send_chat_message w1 r1)) =
            [chat_payload (field b1 ''session_id'') (field b1 ''message'') u1 (now_iso w1)]"
    using send_chat_message_sends [of w1 r1] a by blast
  obtain b2 u2 where b2: "req_json r2 = Inr b2" "fst (getUser w2) = Some u2"
    "dispatched (effects (send_chat_message w2 r2)) =
            [chat_payload (field b2 ''session_id'') (field b2 ''message'') u2 (now_iso w2)]"
    using send_chat_message_sends [of w2 r2] a by blast
  have e: "b1 = b2" using assms(1) b1(1) b2(1) by simp
  have u: "u1 = u2" using a b1(2) b2(2) by simp
  have n: "now_iso w1 = now_iso w2" using a by simp
  show "dispatched (effects (send_chat_message w1 r1)) =
        dispatched (effects (send_chat_message w2 r2))"
    by (simp only: b1(3) b2(3) e u n)
qed


lemma process_document_dispatched:
  assumes "verified w req h uid" and "req_json req = Inr b" and "service_client w"
    and "truthy (field b ''sourceId'')" and "truthy (field b ''filePath'')"
    and "truthy (field b ''sourceType'')"
    and "select_source_owner (store w) (template (field b ''sourceId'')) = Some (s, n)"
    and "nb_user_id n = uid"
    and "truthy_str (env w ''DOCUMENT_PROCESSING_WEBHOOK_URL'')"
  shows "dispatched (effects (process_document w req)) =
     [document_payload w (field b ''sourceId'') (field b ''filePath'') (field b ''sourceType'')]"
proof -
  have m: "req_method req \<noteq> ''OPTIONS''" using assms(1) by (simp add: verified_def)
  show ?thesis
    using assms(9)
    by (simp add: effects_process_document [OF m] process_document_owned [OF assms(1-8)]
        process_document_dispatch_sends)
qed

lemma additional_sources_dispatched:
  assumes "verified w req h uid" and "req_json req = Inr b" and "b \<noteq> JNull"
    and "service_client w"
    and "select_notebook (store w) (template (field b ''notebookId'')) = Some n"
    and "nb_user_id n = uid"
    and "truthy_str (env w ''ADDITIONAL_SOURCES_WEBHOOK_URL'')"
    and "truthy_str (env w ''NOTEBOOK_GENERATION_AUTH'')"
    and "additional_sources_payload b = Some p"
  shows "dispatched (effects (process_additional_sources w req)) = [p]"
proof -
  have m: "req_method req \<noteq> ''OPTIONS''" using assms(1) by (simp add: verified_def)
  show ?thesis
    by (simp add: effects_additional_sources [OF m] additional_sources_owned [OF assms(1-6)]
        additional_sources_dispatch_dispatched [OF assms(7-9)])
qed

lemma send_chat_message_dispatched:
  assumes "verified w req h uid" and "req_json req = Inr b" and "b \<noteq> JNull"
    and "truthy_str (env w ''NOTEBOOK_CHAT_URL'')"
    and "truthy_str (env w ''NOTEBOOK_GENERATION_AUTH'')"
  shows "dispatched (effects (send_chat_message w req)) =
     [chat_payload (field b ''session_id'') (field b ''message'') uid (now_iso w)]"
proof -
  have m: "req_method req \<noteq> ''OPTIONS''" using assms(1) by (simp add: verified_def)
  show ?thesis
    using assms(2-5)
    by (simp add: effects_send_chat_message [OF m] send_chat_message_try_def
        authorization_check_verified [OF assms(1)] Let_def
        split: fetch_outcome.split sum.split)
qed

lemma example_env_set:
  "truthy_str (map_of example_env ''DOCUMENT_PROCESSING_WEBHOOK_URL'')"
  "truthy_str (map_of example_env ''ADDITIONAL_SOURCES_WEBHOOK_URL'')"
  "truthy_str (map_of example_env ''NOTEBOOK_GENERATION_URL'')"
  "truthy_str (map_of example_env ''NOTEBOOK_CHAT_URL'')"
  "truthy_str (map_of example_env ''NOTEBOOK_GENERATION_AUTH'')"
  by (simp_all add: example_env_def)

lemma full_body_websites:
  "additional_sources_payload full_body =
      Some (websites_payload (field full_body ''notebookId'') (field full_body ''urls'')
              (field full_body ''sourceIds'') (field full_body ''timestamp''))"
  by (simp add: additional_sources_payload_def full_body_def)

theorem payload_determined_witness:
  "env example_world = env failing_world
   \<and> sources (store example_world) = sources (store failing_world)
   \<and> fst (getUser example_world) = fst (getUser failing_world)
   \<and> now_iso example_world = now_iso failing_world
   \<and> processor example_world \<noteq> processor failing_world
   \<and> dispatched (effects (process_document example_world
        (post (Some ''Bearer t'') full_body))) \<noteq> []
   \<and> dispatched (effects (process_document example_world (post (Some ''Bearer t'') full_body)))
      = dispatched (effects (process_document failing_world (post (Some ''Bearer t'') full_body)))
   \<and> dispatched (effects (process_additional_sources example_world
        (post (Some ''Bearer t'') full_body))) \<noteq> []
   \<and> dispatched (effects (process_additional_sources example_world
        (post (Some ''Bearer t'') full_body)))
      = dispatched (effects (process_additional_sources failing_world
        (post (Some ''Bearer t'') full_body)))
   \<and> dispatched (effects (generate_notebook_content example_world
        (post (Some ''Bearer t'') full_body))) \<noteq> []
   \<and> dispatched (effects (generate_notebook_content example_world
        (post (Some ''Bearer t'') full_body)))
      = dispatched (effects (generate_notebook_content failing_world
        (post (Some ''Bearer t'') full_body)))
   \<and> dispatched (effects (send_chat_message example_world
        (post (Some ''Bearer t'') full_body))) \<noteq> []
   \<and> dispatched (effects (send_chat_message example_world (post (Some ''Bearer t'') full_body)))
      = dispatched (effects (send_chat_message failing_world
        (post (Some ''Bearer t'') full_body)))"
proof -
  let ?r = "post (Some ''Bearer t'') full_body"
  let ?s = "hd (sources example_store)"
  let ?n = "hd (notebooks example_store)"
  note w = example_world_facts
  note f = full_body_fields
  note l = example_store_lookups
  note e = example_env_set
  have j: "req_json ?r = Inr full_body" by (simp add: post_def)
  have so: "select_source_owner example_store (template (field full_body ''sourceId''))
      = Some (?s, ?n)" by (simp add: f l)
  have sn: "select_notebook example_store (template (field full_body ''notebookId''))
      = Some ?n" by (simp add: f l)
  have h: "env example_world = env failing_world"
    "sources (store example_world) = sources (store failing_world)"
    "fst (getUser example_world) = fst (getUser failing_world)"
    "now_iso example_world = now_iso failing_world"
    "processor example_world \<noteq> processor failing_world"
    by (simp_all add: failing_world_def example_world_def unavailable_def)
  have d1: "dispatched (effects (process_document example_world ?r)) \<noteq> []"
    using process_document_dispatched [OF w(1) j w(2) f(1-3), of ?s ?n] so l(3) e
    by (simp add: w(3,4))
  have d2: "dispatched (effects (process_document failing_world ?r)) \<noteq> []"
    using process_document_dispatched [OF verified_failing j service_client_failing f(1-3),
        of ?s ?n] so l(3) e
    by (simp add: store_failing env_failing)
  have a1: "dispatched (effects (process_additional_sources example_world ?r)) \<noteq> []"
    using additional_sources_dispatched [OF w(1) j f(5) w(2) _ _ _ _ full_body_websites,
        of ?n] sn l(3) e
    by (simp add: w(3,4))
  have a2: "dispatched (effects (process_additional_sources failing_world ?r)) \<noteq> []"
    using additional_sources_dispatched [OF verified_failing j f(5) service_client_failing
        _ _ _ _ full_body_websites, of ?n] sn l(3) e
    by (simp add: store_failing env_failing)
  have g1: "dispatched (effects (generate_notebook_content example_world ?r)) \<noteq> []"
    using generate_dispatched [OF w(1) j w(2) f(4,3), of ?n] sn l(3) e
    by (simp add: w(3,4))
  have g2: "dispatched (effects (generate_notebook_content failing_world ?r)) \<noteq> []"
    using generate_dispatched [OF verified_failing j service_client_failing f(4,3), of ?n]
      sn l(3) e
    by (simp add: store_failing env_failing)
  have c1: "dispatched (effects (send_chat_message example_world ?r)) \<noteq> []"
    using send_chat_message_dispatched [OF w(1) j f(5)] e by (simp add: w(4))
  have c2: "dispatched (effects (send_chat_message failing_world ?r)) \<noteq> []"
    using send_chat_message_dispatched [OF verified_failing j f(5)] e
    by (simp add: env_failing)
  show ?thesis
    using payload_determined [of ?r ?r example_world failing_world] h d1 d2 a1 a2 g1 g2 c1 c2
    by blast
qed

text \<open>
  C9 as stated fails in send-chat-message: the same request in the same deployment, one
  day apart, is dispatched with two different payloads.
\<close>

theorem chat_payload_clock_counterexample:
  "env example_world = env (example_world\<lparr>now_iso := ''2025-01-02T00:00:00.000Z''\<rparr>)
   \<and> dispatched (effects (send_chat_message example_world
        (post (Some ''Bearer t'') full_body)))
      = [JObj [(''session_id'', JStr ''n1''), (''message'', JStr ''hello''),
               (''user_id'', JStr ''alice''),
               (''timestamp'', JStr ''2025-01-01T00:00:00.000Z'')]]
   \<and> dispatched (effects (send_chat_message
        (example_world\<lparr>now_iso := ''2025-01-02T00:00:00.000Z''\<rparr>)
        (post (Some ''Bearer t'') full_body)))
      = [JObj [(''session_id'', JStr ''n1''), (''message'', JStr ''hello''),
               (''user_id'', JStr ''alice''),
               (''timestamp'', JStr ''2025-01-02T00:00:00.000Z'')]]"
proof -
  let ?r = "post (Some ''Bearer t'') full_body"
  let ?w = "example_world\<lparr>now_iso := ''2025-01-02T00:00:00.000Z''\<rparr>"
  note w = example_world_facts
  note f = full_body_fields
  note e = example_env_set
  have j: "req_json ?r = Inr full_body" by (simp add: post_def)
  have v: "verified ?w ?r ''Bearer t'' ''alice''"
    using w(1) [of full_body] by (simp add: verified_def env_or_empty_def)
  have ff: "field full_body ''session_id'' = Some (JStr ''n1'')"
    "field full_body ''message'' = Some (JStr ''hello'')"
    by (simp_all add: full_body_def)
  have n: "now_iso example_world = ''2025-01-01T00:00:00.000Z''"
    by (simp add: example_world_def)
  have c1: "dispatched (effects (send_chat_message example_world ?r)) =
      [chat_payload (field full_body ''session_id'') (field full_body ''message'') ''alice''
         (now_iso example_world)]"
    using send_chat_message_dispatched [OF w(1) j f(5)] e by (simp add: w(4))
  have c2: "dispatched (effects (send_chat_message ?w ?r)) =
      [chat_payload (field full_body ''session_id'') (field full_body ''message'') ''alice''
         (now_iso ?w)]"
    using send_chat_message_dispatched [OF v j f(5)] e by (simp add: w(4))
  show ?thesis
    by (simp add: c1 c2 ff n chat_payload_def)
qed

end
